theory Spec2Isabelle
  imports Main "HOL-Library.Word"
begin

unbundle bit_operations_syntax

section \<open>Data model of the application framework (app.cpp)\<close>

text \<open>
  The embedding follows \<^verbatim>\<open>src/Libraries/MiKTeX/App/app.cpp\<close>. The class \<^verbatim>\<open>Impl\<close>
  and the file's static variables become one record; every call into a collaborator
  (session, package manager, installer, UI, process launcher, log4cxx, standard error)
  is written to a list of events that each operation returns, in call order, next to the
  new state. What a collaborator answers is a parameter of the operation.
\<close>

text \<open>\<^verbatim>\<open>TriState\<close>: \<^verbatim>\<open>TriState::False\<close>, \<^verbatim>\<open>TriState::True\<close>, \<^verbatim>\<open>TriState::Undetermined\<close>.\<close>

datatype TriState = TriFalse | TriTrue | Undetermined

datatype TraceLevel = Fatal | Error | Warning | Info | Trace | Debug

text \<open>\<^verbatim>\<open>TraceCallback::TraceMessage\<close>, with the members this file reads.\<close>

record TraceMessage =
  facility :: string
  level :: TraceLevel
  message :: string

text \<open>The log4cxx levels of the \<^verbatim>\<open>LOG4CXX_...\<close> macros.\<close>

datatype log_level = FATAL | ERROR | WARN | INFO | TRACE | DEBUG

text \<open>A logged text is the sequence of values streamed into the macro.\<close>

datatype log_arg = S string | I int

text \<open>
  \<^verbatim>\<open>MiKTeXException\<close>, with the four members that \<^verbatim>\<open>InstallPackage\<close> logs.
\<close>

record MiKTeXException =
  errorMessage :: string
  info :: string
  sourceFile :: string
  sourceLine :: int

text \<open>
  What leaves a function other than by \<^verbatim>\<open>return\<close>: the integer of \<^verbatim>\<open>throw 1\<close>, a
  \<^verbatim>\<open>MiKTeXException\<close>, or an exception of a type that
  \<^verbatim>\<open>catch (const MiKTeXException&)\<close> does not match.
\<close>

datatype exn = ThrowInt int | ThrowMiKTeX MiKTeXException | ThrowOther

datatype 'a outcome = Returned 'a | Thrown exn

text \<open>The part of \<^verbatim>\<open>Session\<close> that this file asks for or sets.\<close>

record Session =
  adminMode :: bool
  sharedSetup :: bool
  portable :: bool
  runningAsAdministrator :: bool

datatype event =
    FindFile string
  | LockFile_TryLock
  | PackageManager_Create
  | CreateInstaller
  | Installer_SetCallback
  | Installer_UpdateDb_FromCache
  | Installer_SetFileLists "string list" "string list"
  | Installer_InstallRemove
  | UnloadFilenameDatabase
  | Process_Run string "string list"
  | Session_SetAdminMode bool
  | UI_InitializeFramework
  | UI_InstallPackageMessageBox string string
  | UI_ProxyAuthenticationDialog
  | TryGetDefaultPackageRepository
  | TryGetProxy
  | ConfigureLog4cxx
  | InstallSignalHandler string
  | Log log_level "log_arg list"
  | TraceLog log_level string string
  | Cerr "log_arg list"

text \<open>
  \<^verbatim>\<open>class Impl\<close> together with the static variables \<^verbatim>\<open>initUiFrameworkDone\<close> and
  \<^verbatim>\<open>isLog4cxxConfigured\<close>. The pointers \<^verbatim>\<open>installer\<close>, \<^verbatim>\<open>packageManager\<close> and
  \<^verbatim>\<open>logger\<close> are compared with \<^verbatim>\<open>nullptr\<close> only, so they are booleans (\<open>True\<close>: set).
  \<^verbatim>\<open>session\<close> is the session that \<^verbatim>\<open>Init\<close> creates; the other operations
  run after \<^verbatim>\<open>Init\<close> and dereference it without a check.
\<close>

record app =
  beQuiet :: bool
  commandLine :: string
  enableDiagnose :: TriState
  enableInstaller :: TriState
  enableMaintenance :: TriState
  ignoredPackages :: "string set"
  initialized :: bool
  installer :: bool
  logger :: bool
  mpmAutoAdmin :: TriState
  packageManager :: bool
  pendingTraceMessages :: "TraceMessage list"
  session :: Session
  initUiFrameworkDone :: bool
  isLog4cxxConfigured :: bool

section \<open>Trace buffer\<close>

text \<open>
  \<^verbatim>\<open>Application::TraceInternal\<close>: one message goes to the logger
  \<^verbatim>\<open>trace.<exe>.<facility>\<close> at the level of the message when log4cxx is configured
  (\<^verbatim>\<open>Debug\<close> is also the \<^verbatim>\<open>default\<close> label), to standard error otherwise.
\<close>

fun trace_log_level :: "TraceLevel \<Rightarrow> log_level" where
  "trace_log_level Fatal = FATAL"
| "trace_log_level Error = ERROR"
| "trace_log_level Warning = WARN"
| "trace_log_level Info = INFO"
| "trace_log_level Trace = TRACE"
| "trace_log_level Debug = DEBUG"

definition TraceInternal :: "app \<Rightarrow> TraceMessage \<Rightarrow> event" where
  "TraceInternal s m =
     (if isLog4cxxConfigured s
      then TraceLog (trace_log_level (level m)) (facility m) (message m)
      else Cerr [S (facility m), S (message m)])"

text \<open>
  \<^verbatim>\<open>Application::FlushPendingTraceMessages\<close>: every pending message is passed to
  \<^verbatim>\<open>TraceInternal\<close> in order, then the vector is cleared.
\<close>

definition FlushPendingTraceMessages :: "app \<Rightarrow> app \<times> event list" where
  "FlushPendingTraceMessages s =
     (s\<lparr>pendingTraceMessages := []\<rparr>, map (TraceInternal s) (pendingTraceMessages s))"

text \<open>
  \<^verbatim>\<open>Application::Trace\<close>. Before log4cxx is configured the message is queued, after
  the vector has been cleared when its size is greater than 100. Afterwards the queue is
  flushed and the message is traced directly. The function always returns \<^verbatim>\<open>true\<close>.
\<close>

definition Trace_cb :: "app \<Rightarrow> TraceMessage \<Rightarrow> bool \<times> app \<times> event list" where
  "Trace_cb s traceMessage =
     (if \<not> isLog4cxxConfigured s then
        let s1 = (if length (pendingTraceMessages s) > 100
                  then s\<lparr>pendingTraceMessages := []\<rparr> else s);
            s2 = s1\<lparr>pendingTraceMessages := pendingTraceMessages s1 @ [traceMessage]\<rparr>
        in (True, s2, [])
      else
        let (s1, ev) = FlushPendingTraceMessages s
        in (True, s1, ev @ [TraceInternal s1 traceMessage]))"

text \<open>A sequence of \<^verbatim>\<open>Trace\<close> calls, threading the state; the events are concatenated.\<close>

fun Trace_many :: "app \<Rightarrow> TraceMessage list \<Rightarrow> app \<times> event list" where
  "Trace_many s [] = (s, [])"
| "Trace_many s (m # ms) =
     (case Trace_cb s m of (_, s1, ev) \<Rightarrow>
        (case Trace_many s1 ms of (s2, ev') \<Rightarrow> (s2, ev @ ev')))"

section \<open>Staleness of the derived files\<close>

text \<open>
  What \<^verbatim>\<open>AutoMaintenance\<close> reads from outside. A file is the time of its last write
  when it exists and \<open>None\<close> when it does not: the source asks \<^verbatim>\<open>File::Exists\<close> before
  every \<^verbatim>\<open>File::GetLastWriteTime\<close>. \<^verbatim>\<open>time_t\<close> values are compared only, so they are
  integers. \<open>oneMiKTeXUtility\<close> is the answer of \<^verbatim>\<open>FindFile(MIKTEX_MIKTEX_EXE, ...)\<close>: when
  found, the path and what \<^verbatim>\<open>GetFileNameWithoutExtension\<close> makes of it. \<open>tryLock\<close> is the answer of
  \<^verbatim>\<open>TryLock(0ms)\<close>, and \<open>run\<close> gives, for an argument vector, the return value of
  \<^verbatim>\<open>Process::Run\<close> and the exit code it stores. \<^verbatim>\<open>TryCreateFile\<close> in the same file
  reads a \<^verbatim>\<open>false\<close> return as "could not be started" and a non-zero exit code as the
  helper's own failure; both are answers of \<open>run\<close>.
\<close>

record menv =
  lastAdminMaintenance :: int
  lastUserMaintenance :: int
  lastAdminUpdateDb :: int
  mpmDatabasePath :: "int option"
  userLanguageDat :: "int option"
  userLanguagesIni :: "int option"
  userPackageManifestsIni :: "int option"
  oneMiKTeXUtility :: "(string \<times> string) option"
  tryLock :: bool
  run :: "string list \<Rightarrow> bool \<times> int"

text \<open>
  \<^verbatim>\<open>IsNewer(path1, path2)\<close>: both files exist and the first was written strictly later.
\<close>

definition IsNewer :: "int option \<Rightarrow> int option \<Rightarrow> bool" where
  "IsNewer path1 path2 =
     (case path1 of None \<Rightarrow> False
      | Some t1 \<Rightarrow> (case path2 of None \<Rightarrow> False | Some t2 \<Rightarrow> t1 > t2))"

text \<open>The three decisions of \<^verbatim>\<open>AutoMaintenance\<close>, lines 320 to 342.\<close>

definition mustRefreshFndb :: "menv \<Rightarrow> app \<Rightarrow> bool" where
  "mustRefreshFndb e s =
     (case mpmDatabasePath e of None \<Rightarrow> True
      | Some t \<Rightarrow> \<not> adminMode (session s) \<and> lastAdminMaintenance e > t)"

definition mustRefreshUserLanguageDat :: "menv \<Rightarrow> app \<Rightarrow> bool" where
  "mustRefreshUserLanguageDat e s =
     ((\<not> adminMode (session s)
        \<and> (case userLanguageDat e of None \<Rightarrow> False | Some t \<Rightarrow> lastAdminMaintenance e > t))
      \<or> (\<not> adminMode (session s) \<and> IsNewer (userLanguagesIni e) (userLanguageDat e)))"

definition mustUpdateDb :: "menv \<Rightarrow> app \<Rightarrow> bool" where
  "mustUpdateDb e s =
     (if \<not> adminMode (session s)
      then (case userPackageManifestsIni e of None \<Rightarrow> False
            | Some t \<Rightarrow> lastAdminUpdateDb e > t)
      else False)"

section \<open>Maintenance run\<close>

text \<open>
  \<^verbatim>\<open>isSetupMode\<close> of \<^verbatim>\<open>AutoMaintenance\<close>: neither maintenance time stamp is set and
  the installation is not portable.
\<close>

definition isSetupMode :: "menv \<Rightarrow> app \<Rightarrow> bool" where
  "isSetupMode e s =
     (lastAdminMaintenance e = 0 \<and> lastUserMaintenance e = 0 \<and> \<not> portable (session s))"

text \<open>The preprocessor branches that choose the address printed in setup mode.\<close>

datatype platform = MIKTEX_WINDOWS | APPLE | UNX

fun howto_url :: "platform \<Rightarrow> string" where
  "howto_url MIKTEX_WINDOWS = ''https://miktex.org/howto/install-miktex-win''"
| "howto_url APPLE = ''https://miktex.org/howto/install-miktex-mac''"
| "howto_url UNX = ''https://miktex.org/howto/install-miktex-unx''"

text \<open>
  Lines 353 to 368: the package database is refreshed in this process. Package manager
  and installer are created when missing; \<^verbatim>\<open>AutoRestore<bool>\<close> puts \<^verbatim>\<open>beQuiet\<close> back
  at the end of the block. No handler surrounds \<^verbatim>\<open>UpdateDb\<close>; the call is taken to
  return.
\<close>

definition AutoMaintenance_updateDb :: "app \<Rightarrow> app \<times> event list" where
  "AutoMaintenance_updateDb s =
     (let ev1 = [Log INFO [S ''refreshing user's package database from cache'']];
          ev2 = (if \<not> packageManager s then [PackageManager_Create] else []);
          s1 = s\<lparr>packageManager := True\<rparr>;
          ev3 = (if \<not> installer s1 then [CreateInstaller] else []);
          s2 = s1\<lparr>installer := True\<rparr>;
          restore = beQuiet s2;
          s3 = s2\<lparr>beQuiet := True\<rparr>;
          ev4 = [Installer_SetCallback, Installer_UpdateDb_FromCache];
          s4 = s3\<lparr>beQuiet := restore\<rparr>
      in (s4, ev1 @ ev2 @ ev3 @ ev4))"

text \<open>Lines 369 to 385: the arguments shared by the three helper calls.\<close>

definition commonArgs :: "string \<Rightarrow> app \<Rightarrow> string list" where
  "commonArgs name s =
     [name]
     @ (case enableInstaller s of
          TriFalse \<Rightarrow> [''--disable-installer'']
        | TriTrue \<Rightarrow> [''--enable-installer'']
        | Undetermined \<Rightarrow> [])
     @ (if adminMode (session s) then [''--admin''] else [])
     @ [''--quiet'']"

text \<open>
  One helper call: \<^verbatim>\<open>Process::Run(oneMiKTeXUtility, args, nullptr, &exitCode, nullptr)\<close>
  and the error line that is logged when it returns \<^verbatim>\<open>false\<close>. Nothing else depends on
  the answer.
\<close>

definition run_helper :: "menv \<Rightarrow> string \<Rightarrow> string list \<Rightarrow> string \<Rightarrow> event list" where
  "run_helper e path args who =
     (case run e args of (ok, exitCode) \<Rightarrow>
        Process_Run path args
        # (if \<not> ok then [Log ERROR [S who, S '' exited with code '', I exitCode]] else []))"

text \<open>Lines 352 to 418: what runs while the lock is held.\<close>

definition AutoMaintenance_locked ::
  "menv \<Rightarrow> string \<Rightarrow> string \<Rightarrow> app \<Rightarrow> app \<times> event list" where
  "AutoMaintenance_locked e path name s =
     (let ev0 = [Log TRACE [S ''running MIKTEX_HOOK_AUTO_MAINTENANCE'']];
          (s1, ev1) = (if mustUpdateDb e s then AutoMaintenance_updateDb s else (s, []));
          common = commonArgs name s1;
          ev2 = (if mustRefreshFndb e s
                 then [Log INFO [S ''running One MiKTeX Utility to refresh the file name database''],
                       UnloadFilenameDatabase]
                      @ run_helper e path (common @ [''fndb'', ''refresh'']) ''One MiKTEX Utility''
                 else []);
          ev3 = (if mustRefreshFndb e s
                 then [Log INFO [S ''running One MiKTeX Utility to create font map files'']]
                      @ run_helper e path (common @ [''fontmaps'', ''configure'']) ''One MiKTEX Utility''
                 else []);
          ev4 = (if mustRefreshUserLanguageDat e s
                 then [Log INFO [S ''running One MiKTeX Utility to refresh language.dat'']]
                      @ run_helper e path (common @ [''languages'', ''configure'']) ''One MiKTeX Utility''
                 else [])
      in (s1, ev0 @ ev1 @ ev2 @ ev3 @ ev4))"

text \<open>
  \<^verbatim>\<open>Application::AutoMaintenance\<close>. In setup mode a notice goes to standard error and
  the function leaves with \<^verbatim>\<open>throw 1\<close>. Otherwise \<^verbatim>\<open>&&\<close> asks for the helper only when
  one of the three decisions is true, and the lock is tried only when the helper is
  found. The texts are shown without the translation \<^verbatim>\<open>T_\<close>.
\<close>

definition AutoMaintenance :: "platform \<Rightarrow> menv \<Rightarrow> app \<Rightarrow> unit outcome \<times> app \<times> event list" where
  "AutoMaintenance pf e s =
     (if isSetupMode e s then
        (Thrown (ThrowInt 1), s,
         [Cerr [S ''It seems that this is a fresh TeX installation.''],
          Cerr [S ''Please finish the setup before proceeding.''],
          Cerr [S ''For more information, visit:''],
          Cerr [S (howto_url pf)]])
      else if mustRefreshFndb e s \<or> mustRefreshUserLanguageDat e s \<or> mustUpdateDb e s then
        (case oneMiKTeXUtility e of
           None \<Rightarrow> (Returned (), s, [FindFile ''MIKTEX_MIKTEX_EXE''])
         | Some (path, name) \<Rightarrow>
             if \<not> tryLock e then
               (Returned (), s, [FindFile ''MIKTEX_MIKTEX_EXE'', LockFile_TryLock])
             else
               (case AutoMaintenance_locked e path name s of (s1, ev) \<Rightarrow>
                  (Returned (), s1, [FindFile ''MIKTEX_MIKTEX_EXE'', LockFile_TryLock] @ ev)))
      else (Returned (), s, []))"

text \<open>
  The refresh steps, and the step that an event belongs to: the database update of the
  installer, and a helper call told by its last two arguments.
\<close>

datatype step = CatalogUpdate | IndexRefresh | FontMaps | LanguageConfig

fun step_of :: "event \<Rightarrow> step option" where
  "step_of Installer_UpdateDb_FromCache = Some CatalogUpdate"
| "step_of (Process_Run path args) =
     (let sub = drop (length args - 2) args in
      if sub = [''fndb'', ''refresh''] then Some IndexRefresh
      else if sub = [''fontmaps'', ''configure''] then Some FontMaps
      else if sub = [''languages'', ''configure''] then Some LanguageConfig
      else None)"
| "step_of _ = None"

definition steps_run :: "event list \<Rightarrow> step list" where
  "steps_run evs = List.map_filter step_of evs"

text \<open>The decision that schedules a step.\<close>

fun scheduled :: "menv \<Rightarrow> app \<Rightarrow> step \<Rightarrow> bool" where
  "scheduled e s CatalogUpdate = mustUpdateDb e s"
| "scheduled e s IndexRefresh = mustRefreshFndb e s"
| "scheduled e s FontMaps = mustRefreshFndb e s"
| "scheduled e s LanguageConfig = mustRefreshUserLanguageDat e s"

text \<open>An event that refreshes something or starts a process.\<close>

fun is_refresh_action :: "event \<Rightarrow> bool" where
  "is_refresh_action Installer_UpdateDb_FromCache = True"
| "is_refresh_action UnloadFilenameDatabase = True"
| "is_refresh_action (Process_Run path args) = True"
| "is_refresh_action PackageManager_Create = True"
| "is_refresh_action CreateInstaller = True"
| "is_refresh_action Installer_SetCallback = True"
| "is_refresh_action _ = False"

section \<open>Installing a package on demand\<close>

text \<open>
  The bits of the answer of \<^verbatim>\<open>MiKTeX::UI::InstallPackageMessageBox\<close>. Their values are
  declared in the UI header, outside this file, so they are parameters.
\<close>

record ui_flags =
  YES :: "32 word"
  DONTASKAGAIN :: "32 word"
  ADMIN :: "32 word"

text \<open>
  \<^verbatim>\<open>RepositoryType\<close>: the source names \<^verbatim>\<open>Unknown\<close> and \<^verbatim>\<open>Remote\<close>; every other
  value behaves like \<open>OtherRepository\<close>.
\<close>

datatype RepositoryType = Unknown | Remote | OtherRepository

record ProxySettings =
  useProxy :: bool
  authenticationRequired :: bool
  user :: string

text \<open>
  The answers of the collaborators of \<^verbatim>\<open>InstallPackage\<close>: the message box, the two
  static queries of the package manager (\<open>None\<close>: the query returns \<^verbatim>\<open>false\<close>), the
  proxy dialog, the installer (\<open>None\<close>: \<^verbatim>\<open>InstallRemove\<close> returns; \<open>Some x\<close>: it throws
  \<open>x\<close>) and the path of the installation root.
\<close>

record ienv =
  msgBoxRet :: "32 word"
  defaultPackageRepository :: "(RepositoryType \<times> string) option"
  proxy :: "ProxySettings option"
  proxyAuthenticationDialog :: bool
  installRemove :: "exn option"
  installRootPath :: string

text \<open>
  Modelled from the spec: \<^verbatim>\<open>Session::SetAdminMode\<close> and \<^verbatim>\<open>Session::IsAdminMode\<close> belong
  to the core library and are not part of this file. The spec speaks of switching the
  session to admin mode and switching it back, and of the session's admin-mode flag:
  the setter writes the flag that the getter reads.
\<close>

definition SetAdminMode :: "bool \<Rightarrow> app \<Rightarrow> app" where
  "SetAdminMode b s = s\<lparr>session := (session s)\<lparr>adminMode := b\<rparr>\<rparr>"

text \<open>The two places that start the UI framework once.\<close>

definition initUiFramework :: "app \<Rightarrow> app \<times> event list" where
  "initUiFramework s =
     (if \<not> initUiFrameworkDone s
      then (s\<lparr>initUiFrameworkDone := True\<rparr>, [UI_InitializeFramework])
      else (s, []))"

text \<open>
  Lines 691 to 725: the installer is created when missing and told the package; the
  session is switched to admin mode when \<^verbatim>\<open>mpmAutoAdmin\<close> is \<^verbatim>\<open>True\<close> and it is not in
  admin mode; \<^verbatim>\<open>InstallRemove\<close> runs inside \<^verbatim>\<open>try\<close>. The handler catches a
  \<^verbatim>\<open>MiKTeXException\<close> only: anything else leaves the function from inside the
  \<^verbatim>\<open>try\<close> block, so the statements after the handler do not run. The third component
  of the result is the reference parameter \<^verbatim>\<open>installRoot\<close>.
\<close>

definition InstallPackage_install ::
  "ienv \<Rightarrow> string \<Rightarrow> string \<Rightarrow> string \<Rightarrow> app \<Rightarrow> bool outcome \<times> app \<times> string \<times> event list" where
  "InstallPackage_install env packageId trigger installRoot s =
     (let ev1 = (if \<not> installer s then [CreateInstaller] else []);
          s1 = s\<lparr>installer := True\<rparr>;
          ev2 = [Installer_SetCallback,
                 Installer_SetFileLists [packageId] [],
                 Log INFO [S ''installing package '', S packageId, S '' triggered by '', S trigger]];
          switchToAdminMode = (mpmAutoAdmin s1 = TriTrue \<and> \<not> adminMode (session s1));
          (s2, ev3) = (if switchToAdminMode
                       then (SetAdminMode True s1, [Session_SetAdminMode True])
                       else (s1, []));
          before = ev1 @ ev2 @ ev3 @ [Installer_InstallRemove];
          restore = (\<lambda>s'. if switchToAdminMode
                           then (SetAdminMode False s', [Session_SetAdminMode False])
                           else (s', []))
      in case installRemove env of
           None \<Rightarrow>
             (case restore s2 of (s3, ev4) \<Rightarrow>
                (Returned True, s3, installRootPath env, before @ ev4))
         | Some (ThrowMiKTeX ex) \<Rightarrow>
             (let s3 = s2\<lparr>enableInstaller := TriFalse,
                         ignoredPackages := insert packageId (ignoredPackages s2)\<rparr>;
                  ev4 = [Log FATAL [S (errorMessage ex)],
                         Log FATAL [S ''Info: '', S (info ex)],
                         Log FATAL [S ''Source: '', S (sourceFile ex)],
                         Log FATAL [S ''Line: '', I (sourceLine ex)]]
              in case restore s3 of (s4, ev5) \<Rightarrow>
                   (Returned False, s4, installRoot, before @ ev4 @ ev5))
         | Some x \<Rightarrow> (Thrown x, s2, installRoot, before))"

text \<open>
  Lines 671 to 690: the proxy dialog is shown when the default repository is remote and
  the proxy needs authentication but has no user name. The queries are made from left to
  right and stop at the first that fails.
\<close>

definition proxyCredentialsMissing :: "ienv \<Rightarrow> bool \<times> event list" where
  "proxyCredentialsMissing env =
     (case defaultPackageRepository env of
        None \<Rightarrow> (False, [TryGetDefaultPackageRepository])
      | Some (repositoryType, url) \<Rightarrow>
          if repositoryType \<noteq> Remote then (False, [TryGetDefaultPackageRepository])
          else (case proxy env of
                  None \<Rightarrow> (False, [TryGetDefaultPackageRepository, TryGetProxy])
                | Some proxySettings \<Rightarrow>
                    (useProxy proxySettings \<and> authenticationRequired proxySettings
                       \<and> user proxySettings = [],
                     [TryGetDefaultPackageRepository, TryGetProxy])))"

definition InstallPackage_proxy ::
  "ienv \<Rightarrow> string \<Rightarrow> string \<Rightarrow> string \<Rightarrow> app \<Rightarrow> bool outcome \<times> app \<times> string \<times> event list" where
  "InstallPackage_proxy env packageId trigger installRoot s =
     (case proxyCredentialsMissing env of (missing, ev1) \<Rightarrow>
        if missing then
          (case initUiFramework s of (s1, ev2) \<Rightarrow>
             if \<not> proxyAuthenticationDialog env then
               (Returned False, s1, installRoot, ev1 @ ev2 @ [UI_ProxyAuthenticationDialog])
             else
               (case InstallPackage_install env packageId trigger installRoot s1 of
                  (r, s2, root, ev3) \<Rightarrow>
                    (r, s2, root, ev1 @ ev2 @ [UI_ProxyAuthenticationDialog] @ ev3)))
        else
          (case InstallPackage_install env packageId trigger installRoot s of
             (r, s2, root, ev3) \<Rightarrow> (r, s2, root, ev1 @ ev3)))"

text \<open>
  Lines 650 to 670: with the installer flag undetermined the user is asked. The answer
  is a bit set; \<^verbatim>\<open>DONTASKAGAIN\<close> fixes the flag, a refusal puts the package into
  \<^verbatim>\<open>ignoredPackages\<close>, and on consent the \<^verbatim>\<open>ADMIN\<close> bit overwrites \<^verbatim>\<open>mpmAutoAdmin\<close>.
\<close>

definition InstallPackage_prompt ::
  "ui_flags \<Rightarrow> ienv \<Rightarrow> string \<Rightarrow> string \<Rightarrow> string \<Rightarrow> app
     \<Rightarrow> bool outcome \<times> app \<times> string \<times> event list" where
  "InstallPackage_prompt ui env packageId trigger installRoot s =
     (case initUiFramework s of (s1, ev1) \<Rightarrow>
        let ev2 = ev1 @ [UI_InstallPackageMessageBox packageId trigger];
            doInstall = (msgBoxRet env AND YES ui \<noteq> 0);
            s2 = (if msgBoxRet env AND DONTASKAGAIN ui \<noteq> 0
                  then s1\<lparr>enableInstaller := (if doInstall then TriTrue else TriFalse)\<rparr>
                  else s1)
        in if \<not> doInstall then
             (Returned False, s2\<lparr>ignoredPackages := insert packageId (ignoredPackages s2)\<rparr>,
              installRoot, ev2)
           else
             (let s3 = s2\<lparr>mpmAutoAdmin :=
                           (if msgBoxRet env AND ADMIN ui \<noteq> 0 then TriTrue else TriFalse)\<rparr>
              in case InstallPackage_proxy env packageId trigger installRoot s3 of
                   (r, s4, root, ev3) \<Rightarrow> (r, s4, root, ev2 @ ev3)))"

text \<open>\<^verbatim>\<open>Application::InstallPackage\<close>.\<close>

definition InstallPackage ::
  "ui_flags \<Rightarrow> ienv \<Rightarrow> string \<Rightarrow> string \<Rightarrow> string \<Rightarrow> app
     \<Rightarrow> bool outcome \<times> app \<times> string \<times> event list" where
  "InstallPackage ui env packageId trigger installRoot s =
     (if packageId \<in> ignoredPackages s then (Returned False, s, installRoot, [])
      else if enableInstaller s = TriFalse then (Returned False, s, installRoot, [])
      else
        (let ev1 = (if \<not> packageManager s then [PackageManager_Create] else []);
             s1 = s\<lparr>packageManager := True\<rparr>
         in case (if enableInstaller s1 = Undetermined
                  then InstallPackage_prompt ui env packageId trigger installRoot s1
                  else InstallPackage_proxy env packageId trigger installRoot s1) of
              (r, s2, root, ev2) \<Rightarrow> (r, s2, root, ev1 @ ev2)))"

section \<open>Initialisation\<close>

text \<open>
  What \<^verbatim>\<open>Init\<close> reads: the session that \<^verbatim>\<open>Session::Create\<close> returns, the name of the
  executable, and the two configuration values \<^verbatim>\<open>AutoInstall\<close> and \<^verbatim>\<open>AutoAdmin\<close> as
  \<^verbatim>\<open>GetTriState\<close> reads them.
\<close>

record cenv =
  createdSession :: Session
  exeName :: string
  AUTOINSTALL :: TriState
  AUTOADMIN :: TriState

text \<open>\<^verbatim>\<open>Application::LogWarn\<close>: a warning when there is a logger.\<close>

definition LogWarn :: "app \<Rightarrow> string \<Rightarrow> event list" where
  "LogWarn s msg = (if logger s then [Log WARN [S msg]] else [])"

text \<open>\<^verbatim>\<open>Application::SecurityRisk\<close>.\<close>

definition SecurityRisk :: "cenv \<Rightarrow> app \<Rightarrow> string \<Rightarrow> event list" where
  "SecurityRisk c s msg =
     LogWarn s (''security risk'' @ '': '' @ msg)
     @ (if \<not> beQuiet s
        then [Cerr [S (exeName c), S '': '', S ''security risk'', S '': '', S msg]]
        else [])"

text \<open>
  \<^verbatim>\<open>Application::ConfigureLogging\<close>: log4cxx is configured (from the XML file when
  one is found, with the basic configurator otherwise; one event stands for both), the
  flag is set and the logger is fetched.
\<close>

definition ConfigureLogging :: "app \<Rightarrow> app \<times> event list" where
  "ConfigureLogging s = (s\<lparr>isLog4cxxConfigured := True, logger := True\<rparr>, [ConfigureLog4cxx])"

text \<open>
  Lines 499 to 508 of \<^verbatim>\<open>Init\<close>: the installer flag is read from the configuration when
  the command line has not set it; \<^verbatim>\<open>AutoAdmin\<close> is read, and dropped with a warning
  when the setup is not shared.
\<close>

definition Init_policy :: "cenv \<Rightarrow> app \<Rightarrow> app \<times> event list" where
  "Init_policy c s =
     (let s1 = (if enableInstaller s = Undetermined
                then s\<lparr>enableInstaller := AUTOINSTALL c\<rparr> else s);
          s2 = s1\<lparr>mpmAutoAdmin := AUTOADMIN c\<rparr>
      in if mpmAutoAdmin s2 = TriTrue \<and> \<not> sharedSetup (session s2)
         then (s2\<lparr>mpmAutoAdmin := TriFalse\<rparr>,
               LogWarn s2 ''ignoring AutoAdmin=t because this is not a shared setup'')
         else (s2, []))"

text \<open>Lines 511 to 518: maintenance and diagnose are on unless the command line says no.\<close>

definition Init_defaults :: "app \<Rightarrow> app" where
  "Init_defaults s =
     (let s1 = (if enableMaintenance s = Undetermined
                then s\<lparr>enableMaintenance := TriTrue\<rparr> else s)
      in if enableDiagnose s1 = Undetermined then s1\<lparr>enableDiagnose := TriTrue\<rparr> else s1)"

text \<open>
  \<^verbatim>\<open>Application::Init(const Session::InitInfo&)\<close>. The session is created and logging
  configured; the command line is logged when there is one (the process details of that
  line and the Windows version are left out); the installer policy is read; the signal handlers are installed;
  the maintenance and diagnose flags get their defaults; running as administrator
  outside admin mode is reported; the maintenance run follows when it is enabled.
\<close>

definition Init :: "platform \<Rightarrow> cenv \<Rightarrow> menv \<Rightarrow> app \<Rightarrow> unit outcome \<times> app \<times> event list" where
  "Init pf c e s =
     (let s1 = s\<lparr>initialized := True, session := createdSession c\<rparr>;
          (s2, ev1) = ConfigureLogging s1;
          ev2 = (if commandLine s2 = [] then []
                 else Log INFO [S ''this process started with command line: '', S (commandLine s2)]
                      # (if pf = MIKTEX_WINDOWS then [Log INFO [S ''running on Windows'']] else []));
          s3 = s2\<lparr>beQuiet := False\<rparr>;
          (s4, ev3) = Init_policy c s3;
          ev4 = [InstallSignalHandler ''SIGINT'', InstallSignalHandler ''SIGTERM''];
          s5 = Init_defaults s4;
          ev5 = (if runningAsAdministrator (session s5) \<and> \<not> adminMode (session s5)
                 then SecurityRisk c s5 ''running with elevated privileges'' else []);
          ev = ev1 @ ev2 @ ev3 @ ev4 @ ev5
      in if enableMaintenance s5 = TriTrue then
           (case AutoMaintenance pf e s5 of (r, s6, ev6) \<Rightarrow> (r, s6, ev @ ev6))
         else (Returned (), s5, ev))"

section \<open>Notions used to state the properties\<close>

text \<open>The events of a result \<open>(outcome, state, events)\<close>, and the state.\<close>

definition events :: "'a \<times> 'b \<times> event list \<Rightarrow> event list" where
  "events r = snd (snd r)"

definition state_of :: "'a \<times> 'b \<times> 'c \<Rightarrow> 'b" where
  "state_of r = fst (snd r)"

text \<open>
  The contract of the staleness oracle in the words of the specification: true when the
  derived artifact is missing or the source time stamp is strictly greater.
\<close>

definition NeedsRefresh_spec :: "int \<Rightarrow> int option \<Rightarrow> bool" where
  "NeedsRefresh_spec sourceTimestamp derivedTimestamp =
     (case derivedTimestamp of None \<Rightarrow> True | Some d \<Rightarrow> sourceTimestamp > d)"

text \<open>One of the three decisions is true.\<close>

definition anyStale :: "menv \<Rightarrow> app \<Rightarrow> bool" where
  "anyStale e s = (mustRefreshFndb e s \<or> mustRefreshUserLanguageDat e s \<or> mustUpdateDb e s)"

text \<open>
  The maintenance run holds the lock: it is past the setup check, something is stale,
  the helper was found and \<^verbatim>\<open>TryLock\<close> succeeded.
\<close>

definition holds_lock :: "menv \<Rightarrow> app \<Rightarrow> bool" where
  "holds_lock e s =
     (\<not> isSetupMode e s \<and> anyStale e s \<and> oneMiKTeXUtility e \<noteq> None \<and> tryLock e)"

text \<open>No event of the list is the message box that asks for consent.\<close>

definition no_prompt :: "event list \<Rightarrow> bool" where
  "no_prompt evs =
     (\<forall>ev \<in> set evs. case ev of UI_InstallPackageMessageBox p t \<Rightarrow> False | _ \<Rightarrow> True)"

text \<open>
  What every stage of \<^verbatim>\<open>InstallPackage\<close> guarantees about its result, relative to the
  state \<open>s\<close> and the path \<open>installRoot\<close> it was entered with.
\<close>

definition install_post ::
  "ienv \<Rightarrow> string \<Rightarrow> string \<Rightarrow> app \<Rightarrow> bool outcome \<times> app \<times> string \<times> event list \<Rightarrow> bool" where
  "install_post env packageId installRoot s res =
     (case res of (r, s', root', evs) \<Rightarrow>
        (\<forall>b. r = Returned b \<longrightarrow> adminMode (session s') = adminMode (session s))
      \<and> sharedSetup (session s') = sharedSetup (session s)
      \<and> (\<forall>ex. Installer_InstallRemove \<in> set evs \<and> installRemove env = Some (ThrowMiKTeX ex) \<longrightarrow>
            r = Returned False \<and> enableInstaller s' = TriFalse
            \<and> packageId \<in> ignoredPackages s' \<and> root' = installRoot)
      \<and> (r \<noteq> Returned True \<longrightarrow> root' = installRoot)
      \<and> (r = Returned True \<longrightarrow>
            root' = installRootPath env \<and> installRemove env = None
            \<and> Installer_InstallRemove \<in> set evs)
      \<and> (Session_SetAdminMode True \<in> set evs \<longrightarrow>
            Installer_InstallRemove \<in> set evs \<and> \<not> adminMode (session s)
            \<and> ((\<exists>b. r = Returned b) \<longrightarrow> Session_SetAdminMode False \<in> set evs))
      \<and> (no_prompt evs \<longrightarrow>
            mpmAutoAdmin s' = mpmAutoAdmin s
            \<and> (Session_SetAdminMode True \<in> set evs \<longrightarrow> mpmAutoAdmin s = TriTrue))
      \<and> (\<forall>x. r = Thrown x \<longrightarrow>
            installRemove env = Some x \<and> (\<forall>ex. x \<noteq> ThrowMiKTeX ex)
            \<and> Installer_InstallRemove \<in> set evs)
      \<and> (Installer_InstallRemove \<notin> set evs \<longrightarrow> r = Returned False))"

text \<open>
  A sequence of \<^verbatim>\<open>InstallPackage\<close> calls on one application object, each with its own
  collaborator answers. The caller goes on whatever the outcome of a call was.
\<close>

fun InstallPackage_calls ::
  "ui_flags \<Rightarrow> (ienv \<times> string \<times> string) list \<Rightarrow> string \<Rightarrow> app \<Rightarrow> app \<times> event list" where
  "InstallPackage_calls ui [] installRoot s = (s, [])"
| "InstallPackage_calls ui ((env, packageId, trigger) # cs) installRoot s =
     (case InstallPackage ui env packageId trigger installRoot s of (r, s1, root1, ev) \<Rightarrow>
        (case InstallPackage_calls ui cs root1 s1 of (s2, ev') \<Rightarrow> (s2, ev @ ev')))"

subsection \<open>Concrete inputs\<close>

text \<open>The member initialisers of \<^verbatim>\<open>Impl\<close> and of the two static flags.\<close>

definition Impl_initial :: "Session \<Rightarrow> app" where
  "Impl_initial ses =
     \<lparr>beQuiet = False, commandLine = [], enableDiagnose = Undetermined,
      enableInstaller = Undetermined, enableMaintenance = Undetermined,
      ignoredPackages = {}, initialized = False, installer = False, logger = False,
      mpmAutoAdmin = Undetermined, packageManager = False, pendingTraceMessages = [],
      session = ses, initUiFrameworkDone = False, isLog4cxxConfigured = False\<rparr>"

definition user_session :: Session where
  "user_session =
     \<lparr>adminMode = False, sharedSetup = True, portable = False, runningAsAdministrator = False\<rparr>"

definition example_app :: app where
  "example_app = Impl_initial user_session"

text \<open>The \<open>n\<close>-th message of a test sequence.\<close>

definition msg_n :: "nat \<Rightarrow> TraceMessage" where
  "msg_n n = \<lparr>facility = ''core'', level = Trace, message = replicate n (CHR ''x'')\<rparr>"

text \<open>
  A user-mode environment: the administrator's maintenance (time 100) is later than the
  file name database (time 50); \<^verbatim>\<open>language.dat\<close> and the package manifests are
  missing; every helper call fails to start.
\<close>

definition example_menv :: menv where
  "example_menv =
     \<lparr>lastAdminMaintenance = 100, lastUserMaintenance = 50, lastAdminUpdateDb = 100,
      mpmDatabasePath = Some 50, userLanguageDat = None, userLanguagesIni = Some 70,
      userPackageManifestsIni = None,
      oneMiKTeXUtility = Some (''/usr/bin/miktex'', ''miktex''),
      tryLock = True, run = (\<lambda>args. (False, 1))\<rparr>"

definition example_ui :: ui_flags where
  "example_ui = \<lparr>YES = 1, DONTASKAGAIN = 4, ADMIN = 8\<rparr>"

definition example_exception :: MiKTeXException where
  "example_exception =
     \<lparr>errorMessage = ''download failed'', info = [], sourceFile = ''installer.cpp'',
      sourceLine = 1\<rparr>"

text \<open>An installer that fails, with a local repository and no prompt answered.\<close>

definition example_ienv :: ienv where
  "example_ienv =
     \<lparr>msgBoxRet = 0, defaultPackageRepository = None, proxy = None,
      proxyAuthenticationDialog = False,
      installRemove = Some (ThrowMiKTeX example_exception),
      installRootPath = ''/usr/share/miktex''\<rparr>"

definition example_cenv :: cenv where
  "example_cenv =
     \<lparr>createdSession = user_session, exeName = ''pdflatex'',
      AUTOINSTALL = TriTrue, AUTOADMIN = TriTrue\<rparr>"

text \<open>
  An application with the installer enabled and the auto-admin policy on, in user mode.
\<close>

definition elevating_app :: app where
  "elevating_app = example_app\<lparr>enableInstaller := TriTrue, mpmAutoAdmin := TriTrue\<rparr>"

text \<open>The events of a result of \<^verbatim>\<open>InstallPackage\<close>, and the output path.\<close>

definition install_events :: "'a \<times> 'b \<times> 'c \<times> event list \<Rightarrow> event list" where
  "install_events r = snd (snd (snd r))"

definition install_root :: "'a \<times> 'b \<times> 'c \<times> 'd \<Rightarrow> 'c" where
  "install_root r = fst (snd (snd r))"

section \<open>Lemmas on the trace buffer\<close>

lemma Trace_cb_queue:
  "\<not> isLog4cxxConfigured s \<Longrightarrow>
   Trace_cb s m =
     (True,
      s\<lparr>pendingTraceMessages :=
          (if length (pendingTraceMessages s) > 100 then [] else pendingTraceMessages s) @ [m]\<rparr>,
      [])"
  by (simp add: Trace_cb_def Let_def)

lemma Trace_many_unconfigured:
  "\<not> isLog4cxxConfigured s \<Longrightarrow>
   \<not> isLog4cxxConfigured (fst (Trace_many s ms)) \<and> snd (Trace_many s ms) = []"
proof (induction ms arbitrary: s)
  case Nil
  then show ?case by simp
next
  case (Cons m ms)
  let ?s1 = "s\<lparr>pendingTraceMessages :=
          (if length (pendingTraceMessages s) > 100 then [] else pendingTraceMessages s) @ [m]\<rparr>"
  have "\<not> isLog4cxxConfigured ?s1" using Cons.prems by simp
  from Cons.IH[OF this] show ?case
    using Cons.prems by (simp add: Trace_cb_queue split: prod.splits)
qed

lemma Trace_many_pending:
  "\<not> isLog4cxxConfigured s \<Longrightarrow> length (pendingTraceMessages s) \<le> 101 \<Longrightarrow>
   pendingTraceMessages (fst (Trace_many s ms)) =
     drop (101 * ((length (pendingTraceMessages s) + length ms - 1) div 101))
          (pendingTraceMessages s @ ms)"
proof (induction ms arbitrary: s)
  case Nil
  have "(length (pendingTraceMessages s) - 1) div 101 = 0"
    using Nil.prems(2) by simp
  then show ?case by simp
next
  case (Cons m ms)
  let ?q = "pendingTraceMessages s"
  let ?q1 = "(if length ?q > 100 then [] else ?q) @ [m]"
  let ?s1 = "s\<lparr>pendingTraceMessages := ?q1\<rparr>"
  have nc: "\<not> isLog4cxxConfigured ?s1" using Cons.prems by simp
  have le: "length (pendingTraceMessages ?s1) \<le> 101" by simp
  have step: "pendingTraceMessages (fst (Trace_many s (m # ms))) =
              pendingTraceMessages (fst (Trace_many ?s1 ms))"
    using Cons.prems(1) by (simp add: Trace_cb_queue split: prod.splits)
  have ih: "pendingTraceMessages (fst (Trace_many ?s1 ms)) =
            drop (101 * ((length ?q1 + length ms - 1) div 101)) (?q1 @ ms)"
    using Cons.IH[OF nc le] by simp
  show ?case
  proof (cases "length ?q > 100")
    case True
    then have len: "length ?q = 101" using Cons.prems(2) by simp
    have "(length ?q + length (m # ms) - 1) div 101 = Suc (length ms div 101)"
      using len by simp
    then have "drop (101 * ((length ?q + length (m # ms) - 1) div 101)) (?q @ m # ms)
               = drop (101 * (length ms div 101)) (m # ms)"
      using len by simp
    moreover have "drop (101 * ((length ?q1 + length ms - 1) div 101)) (?q1 @ ms)
               = drop (101 * (length ms div 101)) (m # ms)"
      using True by simp
    ultimately show ?thesis using step ih by simp
  next
    case False
    then have "drop (101 * ((length ?q1 + length ms - 1) div 101)) (?q1 @ ms)
               = drop (101 * ((length ?q + length (m # ms) - 1) div 101)) (?q @ m # ms)"
      by simp
    then show ?thesis using step ih by simp
  qed
qed

section \<open>Lemmas on the staleness decisions\<close>

lemma user_fndb:
  "\<not> adminMode (session s) \<Longrightarrow>
   mustRefreshFndb e s = NeedsRefresh_spec (lastAdminMaintenance e) (mpmDatabasePath e)"
  by (simp add: mustRefreshFndb_def NeedsRefresh_spec_def split: option.splits)

lemma user_lang:
  "\<not> adminMode (session s) \<Longrightarrow>
   mustRefreshUserLanguageDat e s =
     (userLanguageDat e \<noteq> None
      \<and> (NeedsRefresh_spec (lastAdminMaintenance e) (userLanguageDat e)
         \<or> (case userLanguagesIni e of None \<Rightarrow> False
             | Some u \<Rightarrow> NeedsRefresh_spec u (userLanguageDat e))))"
  by (auto simp add: mustRefreshUserLanguageDat_def IsNewer_def NeedsRefresh_spec_def split: option.splits)

lemma user_db:
  "\<not> adminMode (session s) \<Longrightarrow>
   mustUpdateDb e s =
     (userPackageManifestsIni e \<noteq> None
      \<and> NeedsRefresh_spec (lastAdminUpdateDb e) (userPackageManifestsIni e))"
  by (auto simp add: mustUpdateDb_def NeedsRefresh_spec_def split: option.splits)

lemma admin_all:
  "adminMode (session s) \<Longrightarrow>
   \<not> mustRefreshUserLanguageDat e s \<and> \<not> mustUpdateDb e s
   \<and> (mustRefreshFndb e s \<longleftrightarrow> mpmDatabasePath e = None)"
  by (auto simp add: mustRefreshUserLanguageDat_def mustUpdateDb_def mustRefreshFndb_def split: option.splits)

section \<open>Lemmas on the maintenance run\<close>

lemma steps_run_Nil: "steps_run [] = []"
  by (simp add: steps_run_def map_filter_simps)

lemma steps_run_Cons:
  "steps_run (ev # evs) =
     (case step_of ev of None \<Rightarrow> steps_run evs | Some st \<Rightarrow> st # steps_run evs)"
  by (simp add: steps_run_def map_filter_simps split: option.splits)

lemma steps_run_append: "steps_run (xs @ ys) = steps_run xs @ steps_run ys"
  by (induction xs) (simp_all add: steps_run_Nil steps_run_Cons split: option.splits)

lemma step_of_helper:
  "step_of (Process_Run path (common @ [a, b])) =
     (if [a, b] = [''fndb'', ''refresh''] then Some IndexRefresh
      else if [a, b] = [''fontmaps'', ''configure''] then Some FontMaps
      else if [a, b] = [''languages'', ''configure''] then Some LanguageConfig
      else None)"
  by (simp add: Let_def)

lemma steps_run_helper:
  "steps_run (run_helper e path (common @ [a, b]) who)
     = (case step_of (Process_Run path (common @ [a, b])) of None \<Rightarrow> [] | Some st \<Rightarrow> [st])"
  by (simp add: run_helper_def steps_run_Cons steps_run_Nil split: prod.splits option.splits)

lemma steps_run_updateDb: "steps_run (snd (AutoMaintenance_updateDb s)) = [CatalogUpdate]"
  by (simp add: AutoMaintenance_updateDb_def Let_def steps_run_Cons steps_run_Nil steps_run_append)

lemma steps_run_locked:
  "steps_run (snd (AutoMaintenance_locked e path name s))
     = filter (scheduled e s) [CatalogUpdate, IndexRefresh, FontMaps, LanguageConfig]"
proof -
  obtain s1 ev1 where u: "AutoMaintenance_updateDb s = (s1, ev1)" by (cases "AutoMaintenance_updateDb s")
  then have "steps_run ev1 = [CatalogUpdate]" using steps_run_updateDb[of s] by simp
  then show ?thesis
    unfolding AutoMaintenance_locked_def Let_def
    by (simp add: u steps_run_append steps_run_Cons steps_run_Nil steps_run_helper
        step_of_helper Let_def)
qed

lemma events_locked:
  "holds_lock e s \<Longrightarrow>
   \<exists>path name. oneMiKTeXUtility e = Some (path, name) \<and>
     AutoMaintenance pf e s =
       (Returned (), fst (AutoMaintenance_locked e path name s),
        [FindFile ''MIKTEX_MIKTEX_EXE'', LockFile_TryLock]
          @ snd (AutoMaintenance_locked e path name s))"
  by (auto simp add: holds_lock_def anyStale_def AutoMaintenance_def split: prod.splits)

lemma steps_run_AutoMaintenance_locked:
  "holds_lock e s \<Longrightarrow>
   steps_run (events (AutoMaintenance pf e s))
     = filter (scheduled e s) [CatalogUpdate, IndexRefresh, FontMaps, LanguageConfig]"
proof -
  assume h: "holds_lock e s"
  from events_locked[OF h, of pf] obtain path name where
    "AutoMaintenance pf e s =
       (Returned (), fst (AutoMaintenance_locked e path name s),
        [FindFile ''MIKTEX_MIKTEX_EXE'', LockFile_TryLock]
          @ snd (AutoMaintenance_locked e path name s))" by blast
  then show ?thesis
    by (simp add: events_def steps_run_append steps_run_Cons steps_run_Nil steps_run_locked)
qed

lemma stale_run_update [simp]:
  "mustRefreshFndb (e\<lparr>run := r\<rparr>) s = mustRefreshFndb e s"
  "mustRefreshUserLanguageDat (e\<lparr>run := r\<rparr>) s = mustRefreshUserLanguageDat e s"
  "mustUpdateDb (e\<lparr>run := r\<rparr>) s = mustUpdateDb e s"
  "isSetupMode (e\<lparr>run := r\<rparr>) s = isSetupMode e s"
  by (simp_all add: mustRefreshFndb_def mustRefreshUserLanguageDat_def mustUpdateDb_def
      isSetupMode_def split: option.splits)

lemma holds_lock_run_update: "holds_lock (e\<lparr>run := r\<rparr>) s = holds_lock e s"
  by (simp add: holds_lock_def anyStale_def)

lemma scheduled_run_update: "scheduled (e\<lparr>run := r\<rparr>) s = scheduled e s"
proof
  fix st show "scheduled (e\<lparr>run := r\<rparr>) s st = scheduled e s st" by (cases st) simp_all
qed

lemma steps_run_not_locked:
  "\<not> holds_lock e s \<Longrightarrow> steps_run (events (AutoMaintenance pf e s)) = []"
  by (auto simp add: holds_lock_def anyStale_def AutoMaintenance_def events_def
      steps_run_Cons steps_run_Nil split: option.splits)

lemma no_action_when_lock_held:
  "\<not> tryLock e \<Longrightarrow>
   snd (AutoMaintenance pf e s) \<in>
     {(s, []), (s, [FindFile ''MIKTEX_MIKTEX_EXE'']),
      (s, [FindFile ''MIKTEX_MIKTEX_EXE'', LockFile_TryLock]),
      (s, [Cerr [S ''It seems that this is a fresh TeX installation.''],
          Cerr [S ''Please finish the setup before proceeding.''],
          Cerr [S ''For more information, visit:''],
          Cerr [S (howto_url pf)]])}"
  by (auto simp add: AutoMaintenance_def split: option.splits)

lemma fresh_run:
  "\<not> anyStale e s \<Longrightarrow> \<not> isSetupMode e s \<Longrightarrow> AutoMaintenance pf e s = (Returned (), s, [])"
  by (simp add: AutoMaintenance_def anyStale_def)

lemma held_run:
  "anyStale e s \<Longrightarrow> \<not> isSetupMode e s \<Longrightarrow> \<not> tryLock e \<Longrightarrow>
   AutoMaintenance pf e s =
     (Returned (), s,
      FindFile ''MIKTEX_MIKTEX_EXE'' # (if oneMiKTeXUtility e = None then [] else [LockFile_TryLock]))"
  by (auto simp add: AutoMaintenance_def anyStale_def split: option.splits)

lemma setup_run:
  "isSetupMode e s \<Longrightarrow>
   fst (AutoMaintenance pf e s) = Thrown (ThrowInt 1) \<and> fst (snd (AutoMaintenance pf e s)) = s
   \<and> (\<forall>ev \<in> set (events (AutoMaintenance pf e s)). \<exists>t. ev = Cerr t)"
  by (simp add: AutoMaintenance_def events_def)

section \<open>Lemmas on the installation\<close>

lemma no_prompt_simps [simp]:
  "no_prompt []"
  "no_prompt (ev # evs) = ((\<forall>p t. ev \<noteq> UI_InstallPackageMessageBox p t) \<and> no_prompt evs)"
  "no_prompt (xs @ ys) = (no_prompt xs \<and> no_prompt ys)"
  by (auto simp add: no_prompt_def split: event.splits)

lemma install_post_install:
  "install_post env packageId installRoot s
     (InstallPackage_install env packageId trigger installRoot s)"
  unfolding install_post_def InstallPackage_install_def SetAdminMode_def Let_def
  by (auto split: option.splits exn.splits)

lemma install_post_prefix:
  assumes post: "install_post env packageId installRoot s1 (r, s', root', evs)"
    and ses: "session s1 = session s"
    and adm: "no_prompt pre \<longrightarrow> mpmAutoAdmin s1 = mpmAutoAdmin s"
    and ir: "Installer_InstallRemove \<notin> set pre"
    and sw: "Session_SetAdminMode True \<notin> set pre"
  shows "install_post env packageId installRoot s (r, s', root', pre @ evs)"
proof -
  have a1: "\<forall>b. r = Returned b \<longrightarrow> adminMode (session s') = adminMode (session s1)"
    and a2: "sharedSetup (session s') = sharedSetup (session s1)"
    and a3: "\<forall>ex. Installer_InstallRemove \<in> set evs \<and> installRemove env = Some (ThrowMiKTeX ex) \<longrightarrow>
            r = Returned False \<and> enableInstaller s' = TriFalse
            \<and> packageId \<in> ignoredPackages s' \<and> root' = installRoot"
    and a4: "r \<noteq> Returned True \<longrightarrow> root' = installRoot"
    and a5: "r = Returned True \<longrightarrow>
            root' = installRootPath env \<and> installRemove env = None
            \<and> Installer_InstallRemove \<in> set evs"
    and a6: "Session_SetAdminMode True \<in> set evs \<longrightarrow>
            Installer_InstallRemove \<in> set evs \<and> \<not> adminMode (session s1)
            \<and> ((\<exists>b. r = Returned b) \<longrightarrow> Session_SetAdminMode False \<in> set evs)"
    and a7: "no_prompt evs \<longrightarrow>
            mpmAutoAdmin s' = mpmAutoAdmin s1
            \<and> (Session_SetAdminMode True \<in> set evs \<longrightarrow> mpmAutoAdmin s1 = TriTrue)"
    and a8: "\<forall>x. r = Thrown x \<longrightarrow>
            installRemove env = Some x \<and> (\<forall>ex. x \<noteq> ThrowMiKTeX ex)
            \<and> Installer_InstallRemove \<in> set evs"
    and a9: "Installer_InstallRemove \<notin> set evs \<longrightarrow> r = Returned False"
    using post unfolding install_post_def prod.case by blast+
  have m: "\<And>x. x \<in> set (pre @ evs) \<longleftrightarrow> x \<in> set pre \<or> x \<in> set evs" by simp
  show ?thesis
    unfolding install_post_def prod.case
  proof (intro conjI)
    show "\<forall>b. r = Returned b \<longrightarrow> adminMode (session s') = adminMode (session s)"
      using a1 ses by simp
    show "sharedSetup (session s') = sharedSetup (session s)"
      using a2 ses by simp
    show "\<forall>ex. Installer_InstallRemove \<in> set (pre @ evs) \<and> installRemove env = Some (ThrowMiKTeX ex) \<longrightarrow>
            r = Returned False \<and> enableInstaller s' = TriFalse
            \<and> packageId \<in> ignoredPackages s' \<and> root' = installRoot"
      using a3 ir unfolding m by blast
    show "r \<noteq> Returned True \<longrightarrow> root' = installRoot" by (rule a4)
    show "r = Returned True \<longrightarrow>
            root' = installRootPath env \<and> installRemove env = None
            \<and> Installer_InstallRemove \<in> set (pre @ evs)"
      using a5 unfolding m by blast
    show "Session_SetAdminMode True \<in> set (pre @ evs) \<longrightarrow>
            Installer_InstallRemove \<in> set (pre @ evs) \<and> \<not> adminMode (session s)
            \<and> ((\<exists>b. r = Returned b) \<longrightarrow> Session_SetAdminMode False \<in> set (pre @ evs))"
      using a6 sw ses unfolding m by metis
    show "no_prompt (pre @ evs) \<longrightarrow>
            mpmAutoAdmin s' = mpmAutoAdmin s
            \<and> (Session_SetAdminMode True \<in> set (pre @ evs) \<longrightarrow> mpmAutoAdmin s = TriTrue)"
      using a7 adm sw unfolding m no_prompt_simps by metis
    show "\<forall>x. r = Thrown x \<longrightarrow>
            installRemove env = Some x \<and> (\<forall>ex. x \<noteq> ThrowMiKTeX ex)
            \<and> Installer_InstallRemove \<in> set (pre @ evs)"
      using a8 unfolding m by blast
    show "Installer_InstallRemove \<notin> set (pre @ evs) \<longrightarrow> r = Returned False"
      using a9 unfolding m by blast
  qed
qed

lemma install_post_refused:
  assumes "session s1 = session s"
    and "no_prompt evs \<longrightarrow> mpmAutoAdmin s1 = mpmAutoAdmin s"
    and "Installer_InstallRemove \<notin> set evs"
    and "Session_SetAdminMode True \<notin> set evs"
  shows "install_post env packageId installRoot s (Returned False, s1, installRoot, evs)"
  using assms unfolding install_post_def prod.case by simp

lemma proxyCredentialsMissing_events:
  "set (snd (proxyCredentialsMissing env)) \<subseteq> {TryGetDefaultPackageRepository, TryGetProxy}"
  by (auto simp add: proxyCredentialsMissing_def split: option.splits prod.splits)

lemma initUiFramework_frame:
  "session (fst (initUiFramework s)) = session s"
  "mpmAutoAdmin (fst (initUiFramework s)) = mpmAutoAdmin s"
  "enableInstaller (fst (initUiFramework s)) = enableInstaller s"
  "ignoredPackages (fst (initUiFramework s)) = ignoredPackages s"
  "set (snd (initUiFramework s)) \<subseteq> {UI_InitializeFramework}"
  by (simp_all add: initUiFramework_def)

lemma install_post_proxy:
  "install_post env packageId installRoot s
     (InstallPackage_proxy env packageId trigger installRoot s)"
proof -
  obtain missing ev1 where m: "proxyCredentialsMissing env = (missing, ev1)"
    by (cases "proxyCredentialsMissing env")
  obtain s1 ev2 where u: "initUiFramework s = (s1, ev2)" by (cases "initUiFramework s")
  have e1: "set ev1 \<subseteq> {TryGetDefaultPackageRepository, TryGetProxy}"
    using proxyCredentialsMissing_events[of env] m by simp
  have e2: "set ev2 \<subseteq> {UI_InitializeFramework}"
    using initUiFramework_frame(5)[of s] u by simp
  have f: "session s1 = session s" "mpmAutoAdmin s1 = mpmAutoAdmin s"
    using initUiFramework_frame(1,2)[of s] u by simp_all
  let ?pre = "ev1 @ ev2 @ [UI_ProxyAuthenticationDialog]"
  have p1: "Installer_InstallRemove \<notin> set ?pre" "Session_SetAdminMode True \<notin> set ?pre"
    using e1 e2 by auto
  have p2: "Installer_InstallRemove \<notin> set ev1" "Session_SetAdminMode True \<notin> set ev1"
    using e1 by auto
  show ?thesis
  proof (cases missing)
    case True
    show ?thesis
    proof (cases "proxyAuthenticationDialog env")
      case False
      have "install_post env packageId installRoot s (Returned False, s1, installRoot, ?pre)"
        by (rule install_post_refused) (use f p1 in blast)+
      then show ?thesis
        using m u True False by (simp add: InstallPackage_proxy_def)
    next
      case dlg: True
      obtain r s2 root ev3 where
        i: "InstallPackage_install env packageId trigger installRoot s1 = (r, s2, root, ev3)"
        by (cases "InstallPackage_install env packageId trigger installRoot s1") auto
      have "install_post env packageId installRoot s1 (r, s2, root, ev3)"
        using install_post_install[of env packageId installRoot s1 trigger] i by simp
      then have "install_post env packageId installRoot s (r, s2, root, ?pre @ ev3)"
        by (rule install_post_prefix) (use f p1 in blast)+
      then show ?thesis
        using m u True dlg i by (simp add: InstallPackage_proxy_def)
    qed
  next
    case False
    obtain r s2 root ev3 where
      i: "InstallPackage_install env packageId trigger installRoot s = (r, s2, root, ev3)"
      by (cases "InstallPackage_install env packageId trigger installRoot s") auto
    have "install_post env packageId installRoot s (r, s2, root, ev3)"
      using install_post_install[of env packageId installRoot s trigger] i by simp
    then have "install_post env packageId installRoot s (r, s2, root, ev1 @ ev3)"
      by (rule install_post_prefix) (use p2 in blast)+
    then show ?thesis
      using m False i by (simp add: InstallPackage_proxy_def)
  qed
qed

lemma install_post_prompt:
  "install_post env packageId installRoot s
     (InstallPackage_prompt ui env packageId trigger installRoot s)"
proof -
  obtain s1 ev1 where u: "initUiFramework s = (s1, ev1)" by (cases "initUiFramework s")
  have e1: "set ev1 \<subseteq> {UI_InitializeFramework}"
    using initUiFramework_frame(5)[of s] u by simp
  have f: "session s1 = session s"
    using initUiFramework_frame(1)[of s] u by simp
  let ?ev2 = "ev1 @ [UI_InstallPackageMessageBox packageId trigger]"
  let ?doInstall = "msgBoxRet env AND YES ui \<noteq> 0"
  let ?s2 = "if msgBoxRet env AND DONTASKAGAIN ui \<noteq> 0
             then s1\<lparr>enableInstaller := (if ?doInstall then TriTrue else TriFalse)\<rparr> else s1"
  have f2: "session ?s2 = session s" using f by simp
  have p: "Installer_InstallRemove \<notin> set ?ev2" "Session_SetAdminMode True \<notin> set ?ev2"
    "\<not> no_prompt ?ev2"
    using e1 by auto
  show ?thesis
  proof (cases ?doInstall)
    case False
    have "install_post env packageId installRoot s
            (Returned False, ?s2\<lparr>ignoredPackages := insert packageId (ignoredPackages ?s2)\<rparr>,
             installRoot, ?ev2)"
      by (rule install_post_refused) (use f2 p in simp_all)
    then show ?thesis
      using u False by (auto simp add: InstallPackage_prompt_def Let_def)
  next
    case True
    let ?s3 = "?s2\<lparr>mpmAutoAdmin := (if msgBoxRet env AND ADMIN ui \<noteq> 0 then TriTrue else TriFalse)\<rparr>"
    have f3: "session ?s3 = session s" using f by simp
    obtain r s4 root ev3 where
      i: "InstallPackage_proxy env packageId trigger installRoot ?s3 = (r, s4, root, ev3)"
      by (cases "InstallPackage_proxy env packageId trigger installRoot ?s3") auto
    have "install_post env packageId installRoot ?s3 (r, s4, root, ev3)"
      using install_post_proxy[of env packageId installRoot ?s3 trigger] i by simp
    then have "install_post env packageId installRoot s (r, s4, root, ?ev2 @ ev3)"
      by (rule install_post_prefix) (use f3 p in simp_all)
    then show ?thesis
      using u True i by (auto simp add: InstallPackage_prompt_def Let_def)
  qed
qed

lemma install_post_InstallPackage:
  "install_post env packageId installRoot s
     (InstallPackage ui env packageId trigger installRoot s)"
proof -
  let ?ev1 = "if \<not> packageManager s then [PackageManager_Create] else []"
  let ?s1 = "s\<lparr>packageManager := True\<rparr>"
  have p: "Installer_InstallRemove \<notin> set ?ev1" "Session_SetAdminMode True \<notin> set ?ev1"
    by simp_all
  consider (ignored) "packageId \<in> ignoredPackages s"
    | (disabled) "packageId \<notin> ignoredPackages s" "enableInstaller s = TriFalse"
    | (ask) "packageId \<notin> ignoredPackages s" "enableInstaller s = Undetermined"
    | (go) "packageId \<notin> ignoredPackages s" "enableInstaller s = TriTrue"
    by (cases "enableInstaller s") auto
  then show ?thesis
  proof cases
    case ignored
    have "install_post env packageId installRoot s (Returned False, s, installRoot, [])"
      by (rule install_post_refused) simp_all
    then show ?thesis using ignored by (simp add: InstallPackage_def)
  next
    case disabled
    have "install_post env packageId installRoot s (Returned False, s, installRoot, [])"
      by (rule install_post_refused) simp_all
    then show ?thesis using disabled by (simp add: InstallPackage_def)
  next
    case ask
    obtain r s2 root ev2 where
      i: "InstallPackage_prompt ui env packageId trigger installRoot ?s1 = (r, s2, root, ev2)"
      by (cases "InstallPackage_prompt ui env packageId trigger installRoot ?s1") auto
    have "install_post env packageId installRoot ?s1 (r, s2, root, ev2)"
      using install_post_prompt[of env packageId installRoot ?s1 ui trigger] i by simp
    then have "install_post env packageId installRoot s (r, s2, root, ?ev1 @ ev2)"
      by (rule install_post_prefix) (use p in simp_all)
    then show ?thesis using ask i by (simp add: InstallPackage_def Let_def)
  next
    case go
    obtain r s2 root ev2 where
      i: "InstallPackage_proxy env packageId trigger installRoot ?s1 = (r, s2, root, ev2)"
      by (cases "InstallPackage_proxy env packageId trigger installRoot ?s1") auto
    have "install_post env packageId installRoot ?s1 (r, s2, root, ev2)"
      using install_post_proxy[of env packageId installRoot ?s1 trigger] i by simp
    then have "install_post env packageId installRoot s (r, s2, root, ?ev1 @ ev2)"
      by (rule install_post_prefix) (use p in simp_all)
    then show ?thesis using go i by (simp add: InstallPackage_def Let_def)
  qed
qed

lemma InstallPackage_post:
  assumes "InstallPackage ui env packageId trigger installRoot s = (r, s', root', evs)"
  shows "install_post env packageId installRoot s (r, s', root', evs)"
  using install_post_InstallPackage[of env packageId installRoot s ui trigger] assms by simp

lemma InstallPackage_admin_restored:
  assumes "InstallPackage ui env packageId trigger installRoot s = (Returned b, s', root', evs)"
  shows "adminMode (session s') = adminMode (session s)"
  using InstallPackage_post[OF assms] unfolding install_post_def prod.case by blast

lemma InstallPackage_thrown:
  assumes "InstallPackage ui env packageId trigger installRoot s = (Thrown x, s', root', evs)"
  shows "installRemove env = Some x \<and> (\<forall>ex. x \<noteq> ThrowMiKTeX ex)"
  using InstallPackage_post[OF assms] unfolding install_post_def prod.case by blast

lemma InstallPackage_switch:
  assumes "InstallPackage ui env packageId trigger installRoot s = (r, s', root', evs)"
    and "Session_SetAdminMode True \<in> set evs"
  shows "Installer_InstallRemove \<in> set evs \<and> \<not> adminMode (session s)
         \<and> ((\<exists>b. r = Returned b) \<longrightarrow> Session_SetAdminMode False \<in> set evs)"
  using InstallPackage_post[OF assms(1)] assms(2) unfolding install_post_def prod.case by blast

lemma InstallPackage_failure:
  assumes "InstallPackage ui env packageId trigger installRoot s = (r, s', root', evs)"
    and "Installer_InstallRemove \<in> set evs"
    and "installRemove env = Some (ThrowMiKTeX ex)"
  shows "r = Returned False \<and> enableInstaller s' = TriFalse
         \<and> packageId \<in> ignoredPackages s' \<and> root' = installRoot"
  using InstallPackage_post[OF assms(1)] assms(2,3) unfolding install_post_def prod.case by blast

lemma InstallPackage_root:
  assumes "InstallPackage ui env packageId trigger installRoot s = (r, s', root', evs)"
  shows "(r \<noteq> Returned True \<longrightarrow> root' = installRoot)
       \<and> (r = Returned True \<longrightarrow> root' = installRootPath env \<and> installRemove env = None
            \<and> Installer_InstallRemove \<in> set evs)"
  using InstallPackage_post[OF assms(1)] unfolding install_post_def prod.case by blast

lemma InstallPackage_policy:
  assumes "InstallPackage ui env packageId trigger installRoot s = (r, s', root', evs)"
  shows "sharedSetup (session s') = sharedSetup (session s)
       \<and> (no_prompt evs \<longrightarrow> mpmAutoAdmin s' = mpmAutoAdmin s
            \<and> (Session_SetAdminMode True \<in> set evs \<longrightarrow> mpmAutoAdmin s = TriTrue))"
  using InstallPackage_post[OF assms(1)] unfolding install_post_def prod.case by blast

lemma InstallPackage_calls_policy:
  "InstallPackage_calls ui cs installRoot s = (s', evs) \<Longrightarrow> no_prompt evs \<Longrightarrow>
   sharedSetup (session s') = sharedSetup (session s) \<and> mpmAutoAdmin s' = mpmAutoAdmin s
   \<and> (Session_SetAdminMode True \<in> set evs \<longrightarrow> mpmAutoAdmin s = TriTrue)"
proof (induction cs arbitrary: installRoot s s' evs)
  case Nil
  then show ?case by simp
next
  case (Cons c cs)
  obtain env packageId trigger where c: "c = (env, packageId, trigger)" by (cases c)
  obtain r s1 root1 ev where
    i: "InstallPackage ui env packageId trigger installRoot s = (r, s1, root1, ev)"
    by (cases "InstallPackage ui env packageId trigger installRoot s") auto
  obtain s2 ev' where j: "InstallPackage_calls ui cs root1 s1 = (s2, ev')"
    by (cases "InstallPackage_calls ui cs root1 s1")
  have e: "s' = s2" "evs = ev @ ev'" using Cons.prems(1) c i j by simp_all
  have np: "no_prompt ev" "no_prompt ev'" using Cons.prems(2) e by simp_all
  have a: "sharedSetup (session s1) = sharedSetup (session s)"
    "mpmAutoAdmin s1 = mpmAutoAdmin s"
    "Session_SetAdminMode True \<in> set ev \<longrightarrow> mpmAutoAdmin s = TriTrue"
    using InstallPackage_policy[OF i] np(1) by simp_all
  have b: "sharedSetup (session s2) = sharedSetup (session s1)"
    "mpmAutoAdmin s2 = mpmAutoAdmin s1"
    "Session_SetAdminMode True \<in> set ev' \<longrightarrow> mpmAutoAdmin s1 = TriTrue"
    using Cons.IH[OF j np(2)] by simp_all
  show ?case using a b e by auto
qed

lemma AutoMaintenance_frame:
  "session (state_of (AutoMaintenance pf e s)) = session s
   \<and> mpmAutoAdmin (state_of (AutoMaintenance pf e s)) = mpmAutoAdmin s
   \<and> enableInstaller (state_of (AutoMaintenance pf e s)) = enableInstaller s"
  by (simp add: AutoMaintenance_def AutoMaintenance_locked_def AutoMaintenance_updateDb_def
      state_of_def Let_def split: option.splits prod.splits)

lemma Init_policy_AutoAdmin:
  "session (fst (Init_policy c s)) = session s
   \<and> logger (fst (Init_policy c s)) = logger s
   \<and> mpmAutoAdmin (fst (Init_policy c s))
       = (if AUTOADMIN c = TriTrue \<and> \<not> sharedSetup (session s) then TriFalse else AUTOADMIN c)
   \<and> (AUTOADMIN c = TriTrue \<and> \<not> sharedSetup (session s) \<and> logger s \<longrightarrow>
        snd (Init_policy c s)
          = [Log WARN [S ''ignoring AutoAdmin=t because this is not a shared setup'']])"
  by (simp add: Init_policy_def LogWarn_def Let_def)

lemma Init_defaults_frame:
  "session (Init_defaults s) = session s \<and> mpmAutoAdmin (Init_defaults s) = mpmAutoAdmin s"
  by (simp add: Init_defaults_def Let_def)

lemma Init_AutoAdmin:
  "session (state_of (Init pf c e s)) = createdSession c
   \<and> mpmAutoAdmin (state_of (Init pf c e s))
       = (if AUTOADMIN c = TriTrue \<and> \<not> sharedSetup (createdSession c) then TriFalse
          else AUTOADMIN c)
   \<and> (AUTOADMIN c = TriTrue \<and> \<not> sharedSetup (createdSession c) \<longrightarrow>
        Log WARN [S ''ignoring AutoAdmin=t because this is not a shared setup'']
          \<in> set (events (Init pf c e s)))"
proof -
  define s3 where "s3 = s\<lparr>initialized := True, session := createdSession c,
                          isLog4cxxConfigured := True, logger := True, beQuiet := False\<rparr>"
  obtain s4 ev3 where p: "Init_policy c s3 = (s4, ev3)" by (cases "Init_policy c s3")
  define s5 where "s5 = Init_defaults s4"
  have s3: "session s3 = createdSession c" "logger s3" by (simp_all add: s3_def)
  have s4: "session s4 = createdSession c"
    "mpmAutoAdmin s4 = (if AUTOADMIN c = TriTrue \<and> \<not> sharedSetup (createdSession c) then TriFalse
          else AUTOADMIN c)"
    "AUTOADMIN c = TriTrue \<and> \<not> sharedSetup (createdSession c) \<longrightarrow>
       ev3 = [Log WARN [S ''ignoring AutoAdmin=t because this is not a shared setup'']]"
    using Init_policy_AutoAdmin[of c s3] p s3 by simp_all
  have s5: "session s5 = session s4" "mpmAutoAdmin s5 = mpmAutoAdmin s4"
    using Init_defaults_frame[of s4] by (simp_all add: s5_def)
  obtain r s6 ev6 where m: "AutoMaintenance pf e s5 = (r, s6, ev6)"
    by (cases "AutoMaintenance pf e s5")
  have s6: "session s6 = session s5" "mpmAutoAdmin s6 = mpmAutoAdmin s5"
    using AutoMaintenance_frame[of pf e s5] m by (simp_all add: state_of_def)
  have st: "state_of (Init pf c e s) = (if enableMaintenance s5 = TriTrue then s6 else s5)"
    unfolding Init_def ConfigureLogging_def Let_def prod.case s3_def[symmetric] p
      s5_def[symmetric] m state_of_def
    by simp
  have ev: "set ev3 \<subseteq> set (events (Init pf c e s))"
    unfolding Init_def ConfigureLogging_def Let_def prod.case s3_def[symmetric] p
      s5_def[symmetric] m events_def
    by auto
  show ?thesis using st ev s4 s5 s6 by auto
qed

lemma example_install:
  "InstallPackage example_ui example_ienv ''amsmath'' ''article.cls'' ''/old'' elevating_app
     = (Returned False,
        elevating_app\<lparr>packageManager := True, installer := True, enableInstaller := TriFalse,
                       ignoredPackages := {''amsmath''}\<rparr>,
        ''/old'',
        [PackageManager_Create, TryGetDefaultPackageRepository, CreateInstaller,
         Installer_SetCallback, Installer_SetFileLists [''amsmath''] [],
         Log INFO [S ''installing package '', S ''amsmath'', S '' triggered by '', S ''article.cls''],
         Session_SetAdminMode True, Installer_InstallRemove,
         Log FATAL [S ''download failed''], Log FATAL [S ''Info: '', S []],
         Log FATAL [S ''Source: '', S ''installer.cpp''], Log FATAL [S ''Line: '', I 1],
         Session_SetAdminMode False])"
  by (simp add: InstallPackage_def InstallPackage_proxy_def InstallPackage_install_def
      proxyCredentialsMissing_def SetAdminMode_def Let_def
      elevating_app_def example_app_def Impl_initial_def user_session_def
      example_ienv_def example_exception_def example_ui_def)

lemma example_install_ok:
  "InstallPackage example_ui (example_ienv\<lparr>installRemove := None\<rparr>)
       ''amsmath'' ''article.cls'' ''/old'' elevating_app
     = (Returned True,
        elevating_app\<lparr>packageManager := True, installer := True\<rparr>,
        ''/usr/share/miktex'',
        [PackageManager_Create, TryGetDefaultPackageRepository, CreateInstaller,
         Installer_SetCallback, Installer_SetFileLists [''amsmath''] [],
         Log INFO [S ''installing package '', S ''amsmath'', S '' triggered by '', S ''article.cls''],
         Session_SetAdminMode True, Installer_InstallRemove, Session_SetAdminMode False])"
  by (simp add: InstallPackage_def InstallPackage_proxy_def InstallPackage_install_def
      proxyCredentialsMissing_def SetAdminMode_def Let_def
      elevating_app_def example_app_def Impl_initial_def user_session_def
      example_ienv_def example_exception_def example_ui_def)

lemma example_install_other:
  "InstallPackage example_ui (example_ienv\<lparr>installRemove := Some ThrowOther\<rparr>)
       ''amsmath'' ''article.cls'' ''/old'' elevating_app
     = (Thrown ThrowOther,
        SetAdminMode True (elevating_app\<lparr>packageManager := True, installer := True\<rparr>),
        ''/old'',
        [PackageManager_Create, TryGetDefaultPackageRepository, CreateInstaller,
         Installer_SetCallback, Installer_SetFileLists [''amsmath''] [],
         Log INFO [S ''installing package '', S ''amsmath'', S '' triggered by '', S ''article.cls''],
         Session_SetAdminMode True, Installer_InstallRemove])"
  by (simp add: InstallPackage_def InstallPackage_proxy_def InstallPackage_install_def
      proxyCredentialsMissing_def SetAdminMode_def Let_def
      elevating_app_def example_app_def Impl_initial_def user_session_def
      example_ienv_def example_exception_def example_ui_def)

lemma example_install_int:
  "InstallPackage example_ui (example_ienv\<lparr>installRemove := Some (ThrowInt 1)\<rparr>)
       ''amsmath'' ''article.cls'' ''/old'' elevating_app
     = (Thrown (ThrowInt 1),
        SetAdminMode True (elevating_app\<lparr>packageManager := True, installer := True\<rparr>),
        ''/old'',
        [PackageManager_Create, TryGetDefaultPackageRepository, CreateInstaller,
         Installer_SetCallback, Installer_SetFileLists [''amsmath''] [],
         Log INFO [S ''installing package '', S ''amsmath'', S '' triggered by '', S ''article.cls''],
         Session_SetAdminMode True, Installer_InstallRemove])"
  by (simp add: InstallPackage_def InstallPackage_proxy_def InstallPackage_install_def
      proxyCredentialsMissing_def SetAdminMode_def Let_def
      elevating_app_def example_app_def Impl_initial_def user_session_def
      example_ienv_def example_exception_def example_ui_def)

lemma example_Init_state:
  "state_of (Init UNX example_cenv example_menv example_app)
     = elevating_app\<lparr>initialized := True, logger := True, isLog4cxxConfigured := True,
                     enableMaintenance := TriTrue, enableDiagnose := TriTrue\<rparr>"
  by (simp add: Init_def Init_policy_def Init_defaults_def ConfigureLogging_def LogWarn_def
      AutoMaintenance_def AutoMaintenance_locked_def AutoMaintenance_updateDb_def
      isSetupMode_def mustRefreshFndb_def mustRefreshUserLanguageDat_def mustUpdateDb_def
      IsNewer_def state_of_def Let_def
      example_cenv_def example_menv_def elevating_app_def example_app_def Impl_initial_def
      user_session_def)

lemma example_calls:
  "snd (InstallPackage_calls example_ui [(example_ienv, ''amsmath'', ''article.cls'')] []
         (elevating_app\<lparr>initialized := True, logger := True, isLog4cxxConfigured := True,
                     enableMaintenance := TriTrue, enableDiagnose := TriTrue\<rparr>))
     = [PackageManager_Create, TryGetDefaultPackageRepository, CreateInstaller,
         Installer_SetCallback, Installer_SetFileLists [''amsmath''] [],
         Log INFO [S ''installing package '', S ''amsmath'', S '' triggered by '', S ''article.cls''],
         Session_SetAdminMode True, Installer_InstallRemove,
         Log FATAL [S ''download failed''], Log FATAL [S ''Info: '', S []],
         Log FATAL [S ''Source: '', S ''installer.cpp''], Log FATAL [S ''Line: '', I 1],
         Session_SetAdminMode False]"
  by (simp add: InstallPackage_def InstallPackage_proxy_def InstallPackage_install_def
      proxyCredentialsMissing_def SetAdminMode_def Let_def
      elevating_app_def example_app_def Impl_initial_def user_session_def
      example_ienv_def example_exception_def example_ui_def)

section \<open>Properties\<close>

text \<open>
  Claim C3. In admin mode the language and package-database decisions are false and the
  file-name-database decision is true exactly when the database file is missing; a
  maintenance run in admin mode that runs any refresh step does so because that file is
  missing, and the only steps it can run are the two gated by that decision.
\<close>

theorem staleness_admin_mode:
  assumes "adminMode (session s)"
  shows "\<not> mustRefreshUserLanguageDat e s \<and> \<not> mustUpdateDb e s
       \<and> (mustRefreshFndb e s \<longleftrightarrow> mpmDatabasePath e = None)
       \<and> (anyStale e s \<longleftrightarrow> mpmDatabasePath e = None)
       \<and> (steps_run (events (AutoMaintenance pf e s)) \<noteq> [] \<longrightarrow> mpmDatabasePath e = None)
       \<and> set (steps_run (events (AutoMaintenance pf e s))) \<subseteq> {IndexRefresh, FontMaps}"
proof -
  have a: "\<not> mustRefreshUserLanguageDat e s" "\<not> mustUpdateDb e s"
    "mustRefreshFndb e s \<longleftrightarrow> mpmDatabasePath e = None"
    using admin_all[OF assms, of e] by simp_all
  have st: "anyStale e s \<longleftrightarrow> mpmDatabasePath e = None"
    using a by (simp add: anyStale_def)
  have steps: "steps_run (events (AutoMaintenance pf e s)) = []
             \<or> (mpmDatabasePath e = None
                \<and> steps_run (events (AutoMaintenance pf e s)) = [IndexRefresh, FontMaps])"
  proof (cases "holds_lock e s")
    case True
    then have "mustRefreshFndb e s" using a by (simp add: holds_lock_def anyStale_def)
    then show ?thesis using steps_run_AutoMaintenance_locked[OF True, of pf] a by simp
  next
    case False
    then show ?thesis using steps_run_not_locked[of e s pf] by simp
  qed
  from steps have "steps_run (events (AutoMaintenance pf e s)) \<noteq> [] \<longrightarrow> mpmDatabasePath e = None"
    by blast
  moreover from steps have "set (steps_run (events (AutoMaintenance pf e s))) \<subseteq> {IndexRefresh, FontMaps}"
    by auto
  ultimately show ?thesis using a st by blast
qed

theorem staleness_admin_mode_witness:
  "adminMode (session (example_app\<lparr>session := user_session\<lparr>adminMode := True\<rparr>\<rparr>))
   \<and> mustRefreshFndb (example_menv\<lparr>mpmDatabasePath := None\<rparr>)
        (example_app\<lparr>session := user_session\<lparr>adminMode := True\<rparr>\<rparr>)
   \<and> \<not> mustRefreshFndb example_menv (example_app\<lparr>session := user_session\<lparr>adminMode := True\<rparr>\<rparr>)
   \<and> \<not> mustRefreshUserLanguageDat (example_menv\<lparr>userLanguageDat := Some 50\<rparr>)
        (example_app\<lparr>session := user_session\<lparr>adminMode := True\<rparr>\<rparr>)
   \<and> \<not> mustUpdateDb (example_menv\<lparr>userPackageManifestsIni := Some 50\<rparr>)
        (example_app\<lparr>session := user_session\<lparr>adminMode := True\<rparr>\<rparr>)"
proof -
  let ?s = "example_app\<lparr>session := user_session\<lparr>adminMode := True\<rparr>\<rparr>"
  have h: "adminMode (session ?s)" by simp
  show ?thesis
    using h staleness_admin_mode[OF h, of "example_menv\<lparr>mpmDatabasePath := None\<rparr>" UNX]
      staleness_admin_mode[OF h, of example_menv UNX]
      staleness_admin_mode[OF h, of "example_menv\<lparr>userLanguageDat := Some 50\<rparr>" UNX]
      staleness_admin_mode[OF h, of "example_menv\<lparr>userPackageManifestsIni := Some 50\<rparr>" UNX]
    by (simp add: example_menv_def)
qed

text \<open>
  Claim C2, as amended. In user mode the file-name-database decision follows the
  contract (missing, or the last admin maintenance is strictly later). The language and
  package-database decisions are true exactly when the derived file exists and a source
  is strictly later (for \<^verbatim>\<open>language.dat\<close>: the last admin maintenance, or an existing
  \<^verbatim>\<open>languages.ini\<close>; for the manifests: the last admin database update); a missing
  derived file does not trigger them. Equal time stamps trigger nothing.
\<close>

theorem staleness_user_mode:
  assumes "\<not> adminMode (session s)"
  shows "mustRefreshFndb e s = NeedsRefresh_spec (lastAdminMaintenance e) (mpmDatabasePath e)
       \<and> mustRefreshUserLanguageDat e s =
           (userLanguageDat e \<noteq> None
            \<and> (NeedsRefresh_spec (lastAdminMaintenance e) (userLanguageDat e)
               \<or> (case userLanguagesIni e of None \<Rightarrow> False
                   | Some u \<Rightarrow> NeedsRefresh_spec u (userLanguageDat e))))
       \<and> mustUpdateDb e s =
           (userPackageManifestsIni e \<noteq> None
            \<and> NeedsRefresh_spec (lastAdminUpdateDb e) (userPackageManifestsIni e))
       \<and> \<not> NeedsRefresh_spec t (Some t)"
  using user_fndb[OF assms, of e] user_lang[OF assms, of e] user_db[OF assms, of e]
  by (simp add: NeedsRefresh_spec_def)

theorem staleness_user_mode_witness:
  "\<not> adminMode (session example_app)
   \<and> mustRefreshFndb example_menv example_app
   \<and> \<not> mustRefreshFndb (example_menv\<lparr>mpmDatabasePath := Some 100\<rparr>) example_app
   \<and> mustRefreshUserLanguageDat (example_menv\<lparr>userLanguageDat := Some 60\<rparr>) example_app
   \<and> \<not> mustUpdateDb (example_menv\<lparr>userPackageManifestsIni := Some 100\<rparr>) example_app"
proof -
  have h: "\<not> adminMode (session example_app)"
    by (simp add: example_app_def Impl_initial_def user_session_def)
  show ?thesis
    using h staleness_user_mode[OF h, of example_menv]
      staleness_user_mode[OF h, of "example_menv\<lparr>mpmDatabasePath := Some 100\<rparr>"]
      staleness_user_mode[OF h, of "example_menv\<lparr>userLanguageDat := Some 60\<rparr>"]
      staleness_user_mode[OF h, of "example_menv\<lparr>userPackageManifestsIni := Some 100\<rparr>"]
    by (simp add: example_menv_def NeedsRefresh_spec_def)
qed

text \<open>
  The claim as stated fails: in user mode, with the package manifests and
  \<^verbatim>\<open>language.dat\<close> missing, neither decision is true although the contract says so;
  and in admin mode a file name database older than the last admin maintenance is not
  refreshed.
\<close>

theorem staleness_missing_artifact_counterexample:
  "\<not> adminMode (session example_app)
   \<and> userPackageManifestsIni example_menv = None
   \<and> NeedsRefresh_spec (lastAdminUpdateDb example_menv) (userPackageManifestsIni example_menv)
   \<and> \<not> mustUpdateDb example_menv example_app
   \<and> userLanguageDat example_menv = None
   \<and> NeedsRefresh_spec (lastAdminMaintenance example_menv) (userLanguageDat example_menv)
   \<and> \<not> mustRefreshUserLanguageDat example_menv example_app
   \<and> adminMode (session (example_app\<lparr>session := user_session\<lparr>adminMode := True\<rparr>\<rparr>))
   \<and> NeedsRefresh_spec (lastAdminMaintenance example_menv) (mpmDatabasePath example_menv)
   \<and> \<not> mustRefreshFndb example_menv
          (example_app\<lparr>session := user_session\<lparr>adminMode := True\<rparr>\<rparr>)"
  by (simp add: example_menv_def example_app_def Impl_initial_def user_session_def
      NeedsRefresh_spec_def mustUpdateDb_def mustRefreshUserLanguageDat_def mustRefreshFndb_def
      IsNewer_def)

text \<open>
  Claim C4. In a maintenance run that holds the lock, the steps that run are exactly the
  scheduled ones, in the order package-database update, file-name-database refresh,
  font maps, languages. This holds for every answer of the process launcher, and
  replacing the launcher's answers (start failures, exit codes) by any others leaves the
  steps that run unchanged; the run returns normally.
\<close>

theorem maintenance_step_order:
  assumes "holds_lock e s"
  shows "steps_run (events (AutoMaintenance pf e s))
           = filter (scheduled e s) [CatalogUpdate, IndexRefresh, FontMaps, LanguageConfig]
       \<and> steps_run (events (AutoMaintenance pf (e\<lparr>run := r\<rparr>) s))
           = steps_run (events (AutoMaintenance pf e s))
       \<and> fst (AutoMaintenance pf e s) = Returned ()"
proof -
  have h': "holds_lock (e\<lparr>run := r\<rparr>) s"
    using assms by (simp add: holds_lock_run_update)
  have "fst (AutoMaintenance pf e s) = Returned ()"
    using events_locked[OF assms, of pf] by auto
  then show ?thesis
    using steps_run_AutoMaintenance_locked[OF assms, of pf]
      steps_run_AutoMaintenance_locked[OF h', of pf]
    by (simp add: scheduled_run_update)
qed

theorem maintenance_step_order_witness:
  "holds_lock example_menv example_app
   \<and> run example_menv [''miktex'', ''--quiet'', ''fndb'', ''refresh''] = (False, 1)
   \<and> steps_run (events (AutoMaintenance UNX example_menv example_app))
       = [IndexRefresh, FontMaps]
   \<and> steps_run (events (AutoMaintenance UNX (example_menv\<lparr>run := (\<lambda>args. (True, 0))\<rparr>) example_app))
       = [IndexRefresh, FontMaps]"
proof -
  have s: "mustRefreshFndb example_menv example_app"
    "\<not> mustRefreshUserLanguageDat example_menv example_app"
    "\<not> mustUpdateDb example_menv example_app"
    by (simp_all add: example_menv_def example_app_def Impl_initial_def user_session_def
        mustRefreshFndb_def mustRefreshUserLanguageDat_def mustUpdateDb_def IsNewer_def)
  have h: "holds_lock example_menv example_app"
    using s by (simp add: holds_lock_def anyStale_def isSetupMode_def example_menv_def)
  show ?thesis
    using h s maintenance_step_order[OF h, of UNX "\<lambda>args. (True, 0)"]
    by (simp add: example_menv_def)
qed

text \<open>
  Claim C10. In a maintenance run that holds the lock the font-map step runs exactly
  when the file-name-database decision is true, which is exactly when the refresh of the
  file name database runs. In any run, without that decision no font-map step runs,
  whatever the language decision is.
\<close>

theorem fontmaps_gate:
  "(holds_lock e s \<longrightarrow>
      (FontMaps \<in> set (steps_run (events (AutoMaintenance pf e s))) \<longleftrightarrow> mustRefreshFndb e s))
   \<and> (FontMaps \<in> set (steps_run (events (AutoMaintenance pf e s)))
        \<longleftrightarrow> IndexRefresh \<in> set (steps_run (events (AutoMaintenance pf e s))))
   \<and> (\<not> mustRefreshFndb e s \<longrightarrow> FontMaps \<notin> set (steps_run (events (AutoMaintenance pf e s))))"
proof (cases "holds_lock e s")
  case True
  show ?thesis
    using True steps_run_AutoMaintenance_locked[OF True, of pf] by simp
next
  case False
  show ?thesis
    using False steps_run_not_locked[OF False, of pf] by simp
qed

theorem fontmaps_gate_witness:
  "holds_lock (example_menv\<lparr>mpmDatabasePath := Some 200, userLanguageDat := Some 50\<rparr>) example_app
   \<and> mustRefreshUserLanguageDat
        (example_menv\<lparr>mpmDatabasePath := Some 200, userLanguageDat := Some 50\<rparr>) example_app
   \<and> \<not> mustRefreshFndb
        (example_menv\<lparr>mpmDatabasePath := Some 200, userLanguageDat := Some 50\<rparr>) example_app
   \<and> FontMaps \<notin> set (steps_run (events (AutoMaintenance UNX
        (example_menv\<lparr>mpmDatabasePath := Some 200, userLanguageDat := Some 50\<rparr>) example_app)))
   \<and> holds_lock example_menv example_app
   \<and> FontMaps \<in> set (steps_run (events (AutoMaintenance UNX example_menv example_app)))"
proof -
  let ?e = "example_menv\<lparr>mpmDatabasePath := Some 200, userLanguageDat := Some 50\<rparr>"
  have s: "mustRefreshUserLanguageDat ?e example_app" "\<not> mustRefreshFndb ?e example_app"
    "mustRefreshFndb example_menv example_app"
    by (simp_all add: example_menv_def example_app_def Impl_initial_def user_session_def
        mustRefreshFndb_def mustRefreshUserLanguageDat_def IsNewer_def)
  have h: "holds_lock ?e example_app" "holds_lock example_menv example_app"
    using s by (simp_all add: holds_lock_def anyStale_def isSetupMode_def example_menv_def)
  show ?thesis
    using h s fontmaps_gate[of ?e example_app UNX] fontmaps_gate[of example_menv example_app UNX]
    by simp
qed

text \<open>
  Claim C5. When something is stale and \<^verbatim>\<open>TryLock\<close> fails, the run leaves the state as
  it was, calls no installer, starts no process and unloads nothing; when nothing is
  stale, the lock is not tried and the helper is not looked for. Past the setup check
  (which ends the run with \<^verbatim>\<open>throw 1\<close> before anything is evaluated) both runs return
  normally, the second without any event.
\<close>

theorem maintenance_lock_held:
  "(anyStale e s \<and> \<not> tryLock e \<longrightarrow>
      state_of (AutoMaintenance pf e s) = s
      \<and> (\<forall>ev \<in> set (events (AutoMaintenance pf e s)). \<not> is_refresh_action ev)
      \<and> steps_run (events (AutoMaintenance pf e s)) = []
      \<and> (\<not> isSetupMode e s \<longrightarrow>
           AutoMaintenance pf e s =
             (Returned (), s,
              FindFile ''MIKTEX_MIKTEX_EXE''
              # (if oneMiKTeXUtility e = None then [] else [LockFile_TryLock]))))
   \<and> (\<not> anyStale e s \<longrightarrow>
        LockFile_TryLock \<notin> set (events (AutoMaintenance pf e s))
        \<and> FindFile ''MIKTEX_MIKTEX_EXE'' \<notin> set (events (AutoMaintenance pf e s))
        \<and> (\<not> isSetupMode e s \<longrightarrow> AutoMaintenance pf e s = (Returned (), s, [])))"
proof (intro conjI impI)
  assume a: "anyStale e s \<and> \<not> tryLock e"
  then have nl: "\<not> holds_lock e s" by (simp add: holds_lock_def)
  from a have m: "snd (AutoMaintenance pf e s) \<in>
     {(s, []), (s, [FindFile ''MIKTEX_MIKTEX_EXE'']),
      (s, [FindFile ''MIKTEX_MIKTEX_EXE'', LockFile_TryLock]),
      (s, [Cerr [S ''It seems that this is a fresh TeX installation.''],
          Cerr [S ''Please finish the setup before proceeding.''],
          Cerr [S ''For more information, visit:''],
          Cerr [S (howto_url pf)]])}"
    using no_action_when_lock_held[of e pf s] by simp
  show "state_of (AutoMaintenance pf e s) = s"
    using m by (auto simp add: state_of_def)
  show "\<forall>ev \<in> set (events (AutoMaintenance pf e s)). \<not> is_refresh_action ev"
    using m by (auto simp add: events_def)
  show "steps_run (events (AutoMaintenance pf e s)) = []"
    using steps_run_not_locked[OF nl, of pf] .
  show "AutoMaintenance pf e s =
             (Returned (), s,
              FindFile ''MIKTEX_MIKTEX_EXE''
              # (if oneMiKTeXUtility e = None then [] else [LockFile_TryLock]))"
    if "\<not> isSetupMode e s"
    using held_run[of e s pf] a that by simp
next
  assume a: "\<not> anyStale e s"
  show "LockFile_TryLock \<notin> set (events (AutoMaintenance pf e s))"
    using a by (simp add: AutoMaintenance_def anyStale_def events_def)
  show "FindFile ''MIKTEX_MIKTEX_EXE'' \<notin> set (events (AutoMaintenance pf e s))"
    using a by (simp add: AutoMaintenance_def anyStale_def events_def)
  show "AutoMaintenance pf e s = (Returned (), s, [])" if "\<not> isSetupMode e s"
    using fresh_run[OF a that] .
qed

theorem maintenance_lock_held_witness:
  "anyStale (example_menv\<lparr>tryLock := False\<rparr>) example_app
   \<and> \<not> tryLock (example_menv\<lparr>tryLock := False\<rparr>)
   \<and> \<not> isSetupMode (example_menv\<lparr>tryLock := False\<rparr>) example_app
   \<and> AutoMaintenance UNX (example_menv\<lparr>tryLock := False\<rparr>) example_app
       = (Returned (), example_app, [FindFile ''MIKTEX_MIKTEX_EXE'', LockFile_TryLock])
   \<and> \<not> anyStale (example_menv\<lparr>mpmDatabasePath := Some 200\<rparr>) example_app
   \<and> \<not> isSetupMode (example_menv\<lparr>mpmDatabasePath := Some 200\<rparr>) example_app
   \<and> AutoMaintenance UNX (example_menv\<lparr>mpmDatabasePath := Some 200\<rparr>) example_app
       = (Returned (), example_app, [])"
proof -
  let ?e1 = "example_menv\<lparr>tryLock := False\<rparr>"
  let ?e2 = "example_menv\<lparr>mpmDatabasePath := Some 200\<rparr>"
  have s: "anyStale ?e1 example_app" "\<not> anyStale ?e2 example_app"
    "\<not> isSetupMode ?e1 example_app" "\<not> isSetupMode ?e2 example_app"
    "oneMiKTeXUtility ?e1 \<noteq> None"
    by (simp_all add: example_menv_def example_app_def Impl_initial_def user_session_def
        anyStale_def isSetupMode_def
        mustRefreshFndb_def mustRefreshUserLanguageDat_def mustUpdateDb_def IsNewer_def)
  show ?thesis
    using s maintenance_lock_held[of ?e1 example_app UNX]
      maintenance_lock_held[of ?e2 example_app UNX]
    by simp
qed

text \<open>
  Claim C7. For a package in \<^verbatim>\<open>ignoredPackages\<close>, and likewise when the installer flag
  is \<^verbatim>\<open>False\<close>, \<^verbatim>\<open>InstallPackage\<close> returns \<^verbatim>\<open>false\<close> with the state and the output path
  untouched and without a single call to a collaborator.
\<close>

theorem InstallPackage_declined:
  assumes "packageId \<in> ignoredPackages s \<or> enableInstaller s = TriFalse"
  shows "InstallPackage ui env packageId trigger installRoot s = (Returned False, s, installRoot, [])"
  using assms by (auto simp add: InstallPackage_def)

theorem InstallPackage_declined_witness:
  "''amsmath'' \<in> ignoredPackages (example_app\<lparr>ignoredPackages := {''amsmath''}\<rparr>)
   \<and> InstallPackage example_ui example_ienv ''amsmath'' ''article.cls'' []
        (example_app\<lparr>ignoredPackages := {''amsmath''}\<rparr>)
       = (Returned False, example_app\<lparr>ignoredPackages := {''amsmath''}\<rparr>, [], [])
   \<and> enableInstaller (example_app\<lparr>enableInstaller := TriFalse\<rparr>) = TriFalse
   \<and> InstallPackage example_ui example_ienv ''amsmath'' ''article.cls'' []
        (example_app\<lparr>enableInstaller := TriFalse\<rparr>)
       = (Returned False, example_app\<lparr>enableInstaller := TriFalse\<rparr>, [], [])"
proof -
  have h1: "''amsmath'' \<in> ignoredPackages (example_app\<lparr>ignoredPackages := {''amsmath''}\<rparr>)
            \<or> enableInstaller (example_app\<lparr>ignoredPackages := {''amsmath''}\<rparr>) = TriFalse"
    by simp
  have h2: "''amsmath'' \<in> ignoredPackages (example_app\<lparr>enableInstaller := TriFalse\<rparr>)
            \<or> enableInstaller (example_app\<lparr>enableInstaller := TriFalse\<rparr>) = TriFalse"
    by simp
  show ?thesis
    using InstallPackage_declined[OF h1, of example_ui example_ienv "''article.cls''" "[]"]
      InstallPackage_declined[OF h2, of example_ui example_ienv "''article.cls''" "[]"]
    by simp
qed

text \<open>
  Calls that return. Take a call of \<^verbatim>\<open>InstallPackage\<close> that switches the session to
  admin mode. When the installer returns, or fails with a \<^verbatim>\<open>MiKTeXException\<close>, the call
  returns; and whenever the call returns, the session has been switched back and its
  admin-mode flag is what it was before the call, namely off.
\<close>

theorem InstallPackage_scoped_elevation:
  assumes "InstallPackage ui env packageId trigger installRoot s = (r, s', root', evs)"
    and "Session_SetAdminMode True \<in> set evs"
  shows "((installRemove env = None \<or> (\<exists>ex. installRemove env = Some (ThrowMiKTeX ex)))
            \<longrightarrow> (\<exists>b. r = Returned b))
       \<and> (\<forall>b. r = Returned b \<longrightarrow>
            adminMode (session s') = adminMode (session s)
            \<and> \<not> adminMode (session s')
            \<and> Session_SetAdminMode False \<in> set evs)"
proof (intro conjI allI impI)
  assume i: "installRemove env = None \<or> (\<exists>ex. installRemove env = Some (ThrowMiKTeX ex))"
  show "\<exists>b. r = Returned b"
  proof (cases r)
    case (Returned b)
    then show ?thesis by simp
  next
    case (Thrown x)
    then have "installRemove env = Some x \<and> (\<forall>ex. x \<noteq> ThrowMiKTeX ex)"
      using InstallPackage_thrown[of ui env packageId trigger installRoot s x s' root' evs] assms(1)
      by simp
    then show ?thesis using i by auto
  qed
next
  fix b assume r: "r = Returned b"
  have sw: "\<not> adminMode (session s)" "Session_SetAdminMode False \<in> set evs"
    using InstallPackage_switch[OF assms] r by simp_all
  have eq: "adminMode (session s') = adminMode (session s)"
    using InstallPackage_admin_restored[of ui env packageId trigger installRoot s b s' root' evs]
      assms(1) r by simp
  show "adminMode (session s') = adminMode (session s)" by (rule eq)
  show "\<not> adminMode (session s')" using eq sw by simp
  show "Session_SetAdminMode False \<in> set evs" by (rule sw)
qed

theorem InstallPackage_scoped_elevation_witness:
  "Session_SetAdminMode True \<in> set (install_events
       (InstallPackage example_ui example_ienv ''amsmath'' ''article.cls'' ''/old'' elevating_app))
   \<and> installRemove example_ienv = Some (ThrowMiKTeX example_exception)
   \<and> fst (InstallPackage example_ui example_ienv ''amsmath'' ''article.cls'' ''/old'' elevating_app)
       = Returned False
   \<and> adminMode (session (state_of
       (InstallPackage example_ui example_ienv ''amsmath'' ''article.cls'' ''/old'' elevating_app)))
     = adminMode (session elevating_app)
   \<and> Session_SetAdminMode True \<in> set (install_events
       (InstallPackage example_ui (example_ienv\<lparr>installRemove := None\<rparr>)
          ''amsmath'' ''article.cls'' ''/old'' elevating_app))
   \<and> fst (InstallPackage example_ui (example_ienv\<lparr>installRemove := None\<rparr>)
          ''amsmath'' ''article.cls'' ''/old'' elevating_app)
       = Returned True
   \<and> adminMode (session (state_of
       (InstallPackage example_ui (example_ienv\<lparr>installRemove := None\<rparr>)
          ''amsmath'' ''article.cls'' ''/old'' elevating_app)))
     = adminMode (session elevating_app)"
proof -
  let ?evs = "[PackageManager_Create, TryGetDefaultPackageRepository, CreateInstaller,
         Installer_SetCallback, Installer_SetFileLists [''amsmath''] [],
         Log INFO [S ''installing package '', S ''amsmath'', S '' triggered by '', S ''article.cls''],
         Session_SetAdminMode True, Installer_InstallRemove,
         Log FATAL [S ''download failed''], Log FATAL [S ''Info: '', S []],
         Log FATAL [S ''Source: '', S ''installer.cpp''], Log FATAL [S ''Line: '', I 1],
         Session_SetAdminMode False]"
  let ?evs' = "[PackageManager_Create, TryGetDefaultPackageRepository, CreateInstaller,
         Installer_SetCallback, Installer_SetFileLists [''amsmath''] [],
         Log INFO [S ''installing package '', S ''amsmath'', S '' triggered by '', S ''article.cls''],
         Session_SetAdminMode True, Installer_InstallRemove, Session_SetAdminMode False]"
  have h: "Session_SetAdminMode True \<in> set ?evs" by simp
  have h': "Session_SetAdminMode True \<in> set ?evs'" by simp
  have x: "installRemove example_ienv = Some (ThrowMiKTeX example_exception)"
    by (simp add: example_ienv_def)
  show ?thesis
    using InstallPackage_scoped_elevation[OF example_install h]
      InstallPackage_scoped_elevation[OF example_install_ok h'] x
    by (simp add: example_install example_install_ok install_events_def state_of_def)
qed

text \<open>
  Claim C1. A call of \<^verbatim>\<open>InstallPackage\<close> that switches the session to admin mode is to
  leave the admin-mode flag as it was before the call, whether the installer succeeds,
  fails or raises an error. The code misses this when \<^verbatim>\<open>InstallRemove\<close> throws anything
  that is not a \<^verbatim>\<open>MiKTeXException\<close> (below: an exception of another class, and the
  integer of a \<^verbatim>\<open>throw 1\<close>): the handler does not match, the statements after it are
  skipped, \<^verbatim>\<open>SetAdminMode(false)\<close> among them, and the session stays in admin mode
  although it was in user mode before the call. \<^verbatim>\<open>AutoMaintenance\<close> in the same file
  restores \<^verbatim>\<open>beQuiet\<close> with \<^verbatim>\<open>AutoRestore\<close>, which acts on every way out of the block.
\<close>

theorem InstallPackage_elevation_not_restored:
  "mpmAutoAdmin elevating_app = TriTrue
   \<and> \<not> adminMode (session elevating_app)
   \<and> fst (InstallPackage example_ui (example_ienv\<lparr>installRemove := Some ThrowOther\<rparr>)
          ''amsmath'' ''article.cls'' ''/old'' elevating_app) = Thrown ThrowOther
   \<and> Session_SetAdminMode True \<in> set (install_events
        (InstallPackage example_ui (example_ienv\<lparr>installRemove := Some ThrowOther\<rparr>)
          ''amsmath'' ''article.cls'' ''/old'' elevating_app))
   \<and> Session_SetAdminMode False \<notin> set (install_events
        (InstallPackage example_ui (example_ienv\<lparr>installRemove := Some ThrowOther\<rparr>)
          ''amsmath'' ''article.cls'' ''/old'' elevating_app))
   \<and> adminMode (session (state_of
        (InstallPackage example_ui (example_ienv\<lparr>installRemove := Some ThrowOther\<rparr>)
          ''amsmath'' ''article.cls'' ''/old'' elevating_app)))
   \<and> fst (InstallPackage example_ui (example_ienv\<lparr>installRemove := Some (ThrowInt 1)\<rparr>)
          ''amsmath'' ''article.cls'' ''/old'' elevating_app) = Thrown (ThrowInt 1)
   \<and> Session_SetAdminMode False \<notin> set (install_events
        (InstallPackage example_ui (example_ienv\<lparr>installRemove := Some (ThrowInt 1)\<rparr>)
          ''amsmath'' ''article.cls'' ''/old'' elevating_app))
   \<and> adminMode (session (state_of
        (InstallPackage example_ui (example_ienv\<lparr>installRemove := Some (ThrowInt 1)\<rparr>)
          ''amsmath'' ''article.cls'' ''/old'' elevating_app)))"
proof -
  have a: "mpmAutoAdmin elevating_app = TriTrue" "\<not> adminMode (session elevating_app)"
    by (simp_all add: elevating_app_def example_app_def Impl_initial_def user_session_def)
  show ?thesis
    using a
    by (simp add: example_install_other example_install_int install_events_def state_of_def
        SetAdminMode_def)
qed

text \<open>
  Claim C6. When the installer is invoked and fails with a \<^verbatim>\<open>MiKTeXException\<close>, the call
  returns \<^verbatim>\<open>false\<close> (nothing is thrown), the installer flag is \<^verbatim>\<open>False\<close> afterwards, the
  package is in \<^verbatim>\<open>ignoredPackages\<close>, and \<^verbatim>\<open>installRoot\<close> keeps its value. In every call
  \<^verbatim>\<open>installRoot\<close> changes only together with the result \<^verbatim>\<open>true\<close>, and then it is the
  installation root after an installer call that returned.
\<close>

theorem InstallPackage_installer_failure:
  assumes "InstallPackage ui env packageId trigger installRoot s = (r, s', root', evs)"
  shows "(Installer_InstallRemove \<in> set evs \<and> installRemove env = Some (ThrowMiKTeX ex) \<longrightarrow>
            r = Returned False \<and> enableInstaller s' = TriFalse
            \<and> packageId \<in> ignoredPackages s' \<and> root' = installRoot)
       \<and> (r \<noteq> Returned True \<longrightarrow> root' = installRoot)
       \<and> (r = Returned True \<longrightarrow>
            root' = installRootPath env \<and> installRemove env = None
            \<and> Installer_InstallRemove \<in> set evs)"
  using InstallPackage_failure[OF assms, of ex] InstallPackage_root[OF assms] by blast

theorem InstallPackage_installer_failure_witness:
  "Installer_InstallRemove \<in> set (install_events
       (InstallPackage example_ui example_ienv ''amsmath'' ''article.cls'' ''/old'' elevating_app))
   \<and> installRemove example_ienv = Some (ThrowMiKTeX example_exception)
   \<and> fst (InstallPackage example_ui example_ienv ''amsmath'' ''article.cls'' ''/old'' elevating_app)
       = Returned False
   \<and> enableInstaller (state_of
       (InstallPackage example_ui example_ienv ''amsmath'' ''article.cls'' ''/old'' elevating_app))
       = TriFalse
   \<and> ''amsmath'' \<in> ignoredPackages (state_of
       (InstallPackage example_ui example_ienv ''amsmath'' ''article.cls'' ''/old'' elevating_app))
   \<and> install_root
       (InstallPackage example_ui example_ienv ''amsmath'' ''article.cls'' ''/old'' elevating_app)
       = ''/old''
   \<and> fst (InstallPackage example_ui (example_ienv\<lparr>installRemove := None\<rparr>)
          ''amsmath'' ''article.cls'' ''/old'' elevating_app)
       = Returned True
   \<and> install_root (InstallPackage example_ui (example_ienv\<lparr>installRemove := None\<rparr>)
          ''amsmath'' ''article.cls'' ''/old'' elevating_app)
       = ''/usr/share/miktex''"
proof -
  have x: "installRemove example_ienv = Some (ThrowMiKTeX example_exception)"
    by (simp add: example_ienv_def)
  have p: "installRootPath (example_ienv\<lparr>installRemove := None\<rparr>) = ''/usr/share/miktex''"
    by (simp add: example_ienv_def)
  have a: "Installer_InstallRemove \<in> set (install_events
       (InstallPackage example_ui example_ienv ''amsmath'' ''article.cls'' ''/old'' elevating_app))"
    by (simp add: example_install install_events_def)
  have b: "enableInstaller (state_of
       (InstallPackage example_ui example_ienv ''amsmath'' ''article.cls'' ''/old'' elevating_app))
       = TriFalse
   \<and> ''amsmath'' \<in> ignoredPackages (state_of
       (InstallPackage example_ui example_ienv ''amsmath'' ''article.cls'' ''/old'' elevating_app))
   \<and> fst (InstallPackage example_ui example_ienv ''amsmath'' ''article.cls'' ''/old'' elevating_app)
       = Returned False
   \<and> install_root
       (InstallPackage example_ui example_ienv ''amsmath'' ''article.cls'' ''/old'' elevating_app)
       = ''/old''"
    using InstallPackage_installer_failure[OF example_install, of example_exception, THEN conjunct1]
      a x
    by (simp add: example_install install_events_def state_of_def install_root_def)
  have c: "fst (InstallPackage example_ui (example_ienv\<lparr>installRemove := None\<rparr>)
          ''amsmath'' ''article.cls'' ''/old'' elevating_app)
       = Returned True"
    by (simp add: example_install_ok)
  have d: "install_root (InstallPackage example_ui (example_ienv\<lparr>installRemove := None\<rparr>)
          ''amsmath'' ''article.cls'' ''/old'' elevating_app)
       = installRootPath (example_ienv\<lparr>installRemove := None\<rparr>)"
    using InstallPackage_installer_failure[OF example_install_ok, of example_exception,
        THEN conjunct2, THEN conjunct2]
    by (simp add: example_install_ok install_root_def)
  show ?thesis using a b c d x p by simp
qed

text \<open>
  Claim C9. \<^verbatim>\<open>Init\<close> reads \<^verbatim>\<open>AutoAdmin\<close>; when it is \<^verbatim>\<open>True\<close> and the setup is not
  shared, the flag is \<^verbatim>\<open>False\<close> when \<^verbatim>\<open>Init\<close> is over (also when the maintenance run
  ends it with \<^verbatim>\<open>throw 1\<close>) and the warning has been logged. So after \<^verbatim>\<open>Init\<close> the flag
  is \<^verbatim>\<open>True\<close> only in a shared setup, and in every sequence of \<^verbatim>\<open>InstallPackage\<close> calls
  that follows, as long as no consent prompt has replaced the configured policy, a switch
  to admin mode happens only in a shared setup.
\<close>

theorem Init_AutoAdmin_shared_setup:
  "(AUTOADMIN c = TriTrue \<and> \<not> sharedSetup (createdSession c) \<longrightarrow>
      mpmAutoAdmin (state_of (Init pf c e s)) = TriFalse
      \<and> Log WARN [S ''ignoring AutoAdmin=t because this is not a shared setup'']
           \<in> set (events (Init pf c e s)))
   \<and> (mpmAutoAdmin (state_of (Init pf c e s)) = TriTrue \<longrightarrow>
        sharedSetup (session (state_of (Init pf c e s))))
   \<and> (InstallPackage_calls ui cs installRoot (state_of (Init pf c e s)) = (s', evs)
        \<and> no_prompt evs \<and> Session_SetAdminMode True \<in> set evs \<longrightarrow>
        sharedSetup (session s') \<and> sharedSetup (createdSession c))"
proof -
  let ?s0 = "state_of (Init pf c e s)"
  have i: "session ?s0 = createdSession c"
    "mpmAutoAdmin ?s0
       = (if AUTOADMIN c = TriTrue \<and> \<not> sharedSetup (createdSession c) then TriFalse
          else AUTOADMIN c)"
    "AUTOADMIN c = TriTrue \<and> \<not> sharedSetup (createdSession c) \<longrightarrow>
        Log WARN [S ''ignoring AutoAdmin=t because this is not a shared setup'']
          \<in> set (events (Init pf c e s))"
    using Init_AutoAdmin[of pf c e s] by simp_all
  have a: "AUTOADMIN c = TriTrue \<and> \<not> sharedSetup (createdSession c) \<longrightarrow>
      mpmAutoAdmin ?s0 = TriFalse
      \<and> Log WARN [S ''ignoring AutoAdmin=t because this is not a shared setup'']
           \<in> set (events (Init pf c e s))"
    using i by simp
  have b: "mpmAutoAdmin ?s0 = TriTrue \<longrightarrow> sharedSetup (session ?s0)"
    using i by (simp split: if_splits)
  have d: "sharedSetup (session s') \<and> sharedSetup (createdSession c)"
    if "InstallPackage_calls ui cs installRoot ?s0 = (s', evs)" "no_prompt evs"
      "Session_SetAdminMode True \<in> set evs"
  proof -
    have "sharedSetup (session s') = sharedSetup (session ?s0)" "mpmAutoAdmin ?s0 = TriTrue"
      using InstallPackage_calls_policy[OF that(1,2)] that(3) by simp_all
    then show ?thesis using b i(1) by simp
  qed
  show ?thesis using a b d by blast
qed

theorem Init_AutoAdmin_shared_setup_witness:
  "AUTOADMIN example_cenv = TriTrue
   \<and> Session_SetAdminMode True \<in> set (snd (InstallPackage_calls example_ui
        [(example_ienv, ''amsmath'', ''article.cls'')] []
        (state_of (Init UNX example_cenv example_menv example_app))))
   \<and> sharedSetup (createdSession example_cenv)
   \<and> \<not> sharedSetup (createdSession
          (example_cenv\<lparr>createdSession := user_session\<lparr>sharedSetup := False\<rparr>\<rparr>))
   \<and> mpmAutoAdmin (state_of (Init UNX
          (example_cenv\<lparr>createdSession := user_session\<lparr>sharedSetup := False\<rparr>\<rparr>)
          example_menv example_app)) = TriFalse"
proof -
  let ?cs = "[(example_ienv, ''amsmath'', ''article.cls'')]"
  let ?s0 = "state_of (Init UNX example_cenv example_menv example_app)"
  let ?c' = "example_cenv\<lparr>createdSession := user_session\<lparr>sharedSetup := False\<rparr>\<rparr>"
  have eq: "InstallPackage_calls example_ui ?cs [] ?s0
              = (fst (InstallPackage_calls example_ui ?cs [] ?s0),
                 snd (InstallPackage_calls example_ui ?cs [] ?s0))"
    by simp
  have h: "no_prompt (snd (InstallPackage_calls example_ui ?cs [] ?s0))"
    "Session_SetAdminMode True \<in> set (snd (InstallPackage_calls example_ui ?cs [] ?s0))"
    unfolding example_Init_state example_calls by simp_all
  have c: "AUTOADMIN example_cenv = TriTrue" "AUTOADMIN ?c' = TriTrue"
    "\<not> sharedSetup (createdSession ?c')"
    by (simp_all add: example_cenv_def user_session_def)
  show ?thesis
    using eq h c
      Init_AutoAdmin_shared_setup[where c = example_cenv and pf = UNX and e = example_menv
        and s = example_app and ui = example_ui and cs = ?cs and installRoot = "[]"
        and s' = "fst (InstallPackage_calls example_ui ?cs [] ?s0)"
        and evs = "snd (InstallPackage_calls example_ui ?cs [] ?s0)"]
      Init_AutoAdmin_shared_setup[where c = ?c' and pf = UNX and e = example_menv
        and s = example_app and ui = example_ui and cs = "[]" and installRoot = "[]"]
    by simp
qed

text \<open>
  Claim C8, as amended. Before log4cxx is configured, \<^verbatim>\<open>Trace\<close> appends the message
  to the pending queue after clearing the whole queue when it holds more than 100
  messages. Starting from an empty queue, the queue after \<open>n\<close> messages is the list of
  messages without its first \<open>101 * ((n - 1) div 101)\<close>; nothing reaches a sink. In
  particular 101 messages are all kept, the 102nd is the first to clear the queue and is
  then alone, and after 150 messages the last 49 are queued.
\<close>

theorem trace_buffer_overflow:
  assumes "\<not> isLog4cxxConfigured s"
  shows "Trace_cb s m =
           (True,
            s\<lparr>pendingTraceMessages :=
                (if length (pendingTraceMessages s) > 100 then [] else pendingTraceMessages s)
                @ [m]\<rparr>,
            [])
       \<and> (pendingTraceMessages s = [] \<longrightarrow>
            pendingTraceMessages (fst (Trace_many s ms))
              = drop (101 * ((length ms - 1) div 101)) ms
            \<and> snd (Trace_many s ms) = []
            \<and> \<not> isLog4cxxConfigured (fst (Trace_many s ms)))
       \<and> (pendingTraceMessages s = [] \<and> length ms = 101 \<longrightarrow>
            pendingTraceMessages (fst (Trace_many s ms)) = ms)
       \<and> (pendingTraceMessages s = [] \<and> length ms = 102 \<longrightarrow>
            pendingTraceMessages (fst (Trace_many s ms)) = [last ms])
       \<and> (pendingTraceMessages s = [] \<and> length ms = 150 \<longrightarrow>
            pendingTraceMessages (fst (Trace_many s ms)) = drop 101 ms
            \<and> length (pendingTraceMessages (fst (Trace_many s ms))) = 49)"
proof -
  have q: "pendingTraceMessages (fst (Trace_many s ms))
              = drop (101 * ((length ms - 1) div 101)) ms"
    if "pendingTraceMessages s = []"
    using Trace_many_pending[OF assms, of ms] that by simp
  have l: "drop 101 ms = [last ms]" if "length ms = 102"
  proof -
    have "ms \<noteq> []" using that by auto
    then have "ms = butlast ms @ [last ms]" by simp
    moreover have "length (butlast ms) = 101" using that by simp
    ultimately show ?thesis by (metis append_eq_conv_conj)
  qed
  show ?thesis
    using Trace_cb_queue[OF assms, of m] Trace_many_unconfigured[OF assms, of ms] q l
    by auto
qed

theorem trace_buffer_overflow_witness:
  "\<not> isLog4cxxConfigured example_app \<and> pendingTraceMessages example_app = []
   \<and> length (map msg_n [1..<102]) = 101
   \<and> pendingTraceMessages (fst (Trace_many example_app (map msg_n [1..<102])))
       = map msg_n [1..<102]
   \<and> length (map msg_n [1..<103]) = 102
   \<and> pendingTraceMessages (fst (Trace_many example_app (map msg_n [1..<103])))
       = [msg_n 102]
   \<and> length (map msg_n [1..<151]) = 150
   \<and> pendingTraceMessages (fst (Trace_many example_app (map msg_n [1..<151])))
       = map msg_n [102..<151]"
proof -
  have h: "\<not> isLog4cxxConfigured example_app" "pendingTraceMessages example_app = []"
    by (simp_all add: example_app_def Impl_initial_def)
  have n: "length (map msg_n [1..<102]) = 101" "length (map msg_n [1..<103]) = 102"
    "length (map msg_n [1..<151]) = 150"
    by simp_all
  have d: "drop 101 (map msg_n [1..<151]) = map msg_n [102..<151]"
    by (simp add: drop_map)
  have l: "last (map msg_n [1..<103]) = msg_n 102"
    by (simp add: last_map)
  have a: "pendingTraceMessages (fst (Trace_many example_app (map msg_n [1..<102])))
       = map msg_n [1..<102]"
    using trace_buffer_overflow[OF h(1), of "msg_n 0" "map msg_n [1..<102]",
        THEN conjunct2, THEN conjunct2, THEN conjunct1] h(2) n(1)
    by blast
  have b: "pendingTraceMessages (fst (Trace_many example_app (map msg_n [1..<103])))
       = [last (map msg_n [1..<103])]"
    using trace_buffer_overflow[OF h(1), of "msg_n 0" "map msg_n [1..<103]",
        THEN conjunct2, THEN conjunct2, THEN conjunct2, THEN conjunct1] h(2) n(2)
    by blast
  have c: "pendingTraceMessages (fst (Trace_many example_app (map msg_n [1..<151])))
       = drop 101 (map msg_n [1..<151])"
    using trace_buffer_overflow[OF h(1), of "msg_n 0" "map msg_n [1..<151]",
        THEN conjunct2, THEN conjunct2, THEN conjunct2, THEN conjunct2] h(2) n(3)
    by blast
  show ?thesis
    unfolding a b c l d using h n by blast
qed

text \<open>
  The claim as stated fails at the 101st message: from an empty queue, 101 messages are
  all still queued (the first one included), and of 150 messages 49 remain, the first of
  them the 102nd.
\<close>

theorem trace_buffer_101_counterexample:
  "pendingTraceMessages (fst (Trace_many example_app (map msg_n [1..<102])))
     = map msg_n [1..<102]
   \<and> pendingTraceMessages (fst (Trace_many example_app (map msg_n [1..<151])))
     = map msg_n [102..<151]
   \<and> length (map msg_n [102..<151]) = 49"
proof -
  have h: "\<not> isLog4cxxConfigured example_app" "length (pendingTraceMessages example_app) \<le> 101"
    "pendingTraceMessages example_app = []"
    by (simp_all add: example_app_def Impl_initial_def)
  have d: "drop 101 (map msg_n [1..<151]) = map msg_n [102..<151]"
    by (simp add: drop_map)
  show ?thesis
    using Trace_many_pending[OF h(1,2), of "map msg_n [1..<102]"]
      Trace_many_pending[OF h(1,2), of "map msg_n [1..<151]"] h(3) d
    by simp
qed

end
